theory Spec2Isabelle
  imports Main "HOL-Library.List_Lexorder" "HOL-Library.Sublist"
begin

section \<open>Python strings\<close>

text \<open>
  A Python \<open>str\<close> is a sequence of Unicode code points, so it is modelled as a list of
  natural numbers. ASCII literals of the source are written \<open>lit ''...''\<close>; the Cyrillic
  literals are given by their code points. Strings compare lexicographically by code
  point, as Python's \<open><\<close> on \<open>str\<close> does.
\<close>

type_synonym codepoint = nat
type_synonym pystr = "codepoint list"

definition lit :: "string \<Rightarrow> pystr" where
  "lit s = map of_char s"

text \<open>\<open>str.isspace\<close> for one code point: the white-space table of CPython.\<close>

definition isspace :: "codepoint \<Rightarrow> bool" where
  "isspace c \<longleftrightarrow>
     (9 \<le> c \<and> c \<le> 13) \<or> (28 \<le> c \<and> c \<le> 32) \<or> c = 133 \<or> c = 160 \<or> c = 5760
     \<or> (8192 \<le> c \<and> c \<le> 8202) \<or> c = 8232 \<or> c = 8233 \<or> c = 8239 \<or> c = 8287
     \<or> c = 12288"

text \<open>\<open>s.strip()\<close>: drop leading and trailing white space.\<close>

definition strip :: "pystr \<Rightarrow> pystr" where
  "strip s = rev (dropWhile isspace (rev (dropWhile isspace s)))"

text \<open>\<open>s.startswith(p)\<close> and \<open>s.startswith((p1, ..., pn))\<close>.\<close>

definition startswith :: "pystr \<Rightarrow> pystr \<Rightarrow> bool" where
  "startswith s p \<longleftrightarrow> take (length p) s = p"

definition startswith_any :: "pystr \<Rightarrow> pystr list \<Rightarrow> bool" where
  "startswith_any s ps \<longleftrightarrow> list_ex (startswith s) ps"

text \<open>
  \<open>s.partition(sep)\<close> for a one-character separator: the text before the first
  separator and the text after it; without a separator, the whole string and an empty rest.
\<close>

definition partition_at :: "codepoint \<Rightarrow> pystr \<Rightarrow> pystr \<times> pystr" where
  "partition_at sep s = (takeWhile (\<lambda>c. c \<noteq> sep) s, drop 1 (dropWhile (\<lambda>c. c \<noteq> sep) s))"

subsection \<open>The regular expression of the email check\<close>

text \<open>
  \<open>re.match(r"[^@]+@[^@]+\.[^@]+", email)\<close> anchors the pattern at the start of the string
  only. The patterns needed are sequences of single characters and negated one-character
  classes, each taken once or repeated with \<open>+\<close>; \<open>re_match\<close> is a backtracking matcher for
  them and tells whether some prefix of the string matches.
\<close>

datatype atom = Lit codepoint | Neg codepoint

datatype item = One atom | Many atom

fun atom_ok :: "atom \<Rightarrow> codepoint \<Rightarrow> bool" where
  "atom_ok (Lit a) c \<longleftrightarrow> c = a"
| "atom_ok (Neg a) c \<longleftrightarrow> c \<noteq> a"

fun re_match :: "item list \<Rightarrow> pystr \<Rightarrow> bool" where
  "re_match [] s \<longleftrightarrow> True"
| "re_match (p # ps) [] \<longleftrightarrow> False"
| "re_match (One a # ps) (c # s) \<longleftrightarrow> atom_ok a c \<and> re_match ps s"
| "re_match (Many a # ps) (c # s) \<longleftrightarrow> atom_ok a c \<and> (re_match (Many a # ps) s \<or> re_match ps s)"

definition email_pattern :: "item list" where
  "email_pattern = [Many (Neg 64), One (Lit 64), Many (Neg 64), One (Lit 46), Many (Neg 64)]"

subsection \<open>Decimal formatting\<close>

text \<open>\<open>str(n)\<close> for a natural number, and the format specifications \<open>04d\<close>, \<open>02d\<close>, \<open>06d\<close>:
  decimal digits, padded on the left with zeros up to the width.\<close>

fun str_nat :: "nat \<Rightarrow> pystr" where
  "str_nat n = (if n < 10 then [48 + n] else str_nat (n div 10) @ [48 + n mod 10])"

declare str_nat.simps [simp del]

definition fmt_0d :: "nat \<Rightarrow> nat \<Rightarrow> pystr" where
  "fmt_0d width n = replicate (width - length (str_nat n)) 48 @ str_nat n"

section \<open>Clock readings\<close>

text \<open>
  \<open>datetime.utcnow()\<close> is a reading of the system clock. A handler that reads the clock
  several times receives its readings as a function \<open>now\<close>: \<open>now 0\<close> is the first reading of
  that invocation, \<open>now 1\<close> the second, and so on. \<open>strftime('%Y%m%d')\<close> and \<open>isoformat()\<close>
  are the two renderings used; \<open>isoformat\<close> leaves the fraction out when the microsecond
  is zero.
\<close>

record datetime =
  year :: nat
  month :: nat
  day :: nat
  hour :: nat
  minute :: nat
  second :: nat
  microsecond :: nat

definition strftime_Ymd :: "datetime \<Rightarrow> pystr" where
  "strftime_Ymd d = fmt_0d 4 (year d) @ fmt_0d 2 (month d) @ fmt_0d 2 (day d)"

definition isoformat :: "datetime \<Rightarrow> pystr" where
  "isoformat d =
     fmt_0d 4 (year d) @ lit ''-'' @ fmt_0d 2 (month d) @ lit ''-'' @ fmt_0d 2 (day d) @ lit ''T''
     @ fmt_0d 2 (hour d) @ lit '':'' @ fmt_0d 2 (minute d) @ lit '':'' @ fmt_0d 2 (second d)
     @ (if microsecond d = 0 then [] else lit ''.'' @ fmt_0d 6 (microsecond d))"

section \<open>The record store\<close>

text \<open>
  A collection is a Python \<open>dict\<close> from identifiers to records; it keeps insertion order,
  which \<open>sorted\<close> (a stable sort) observes, so it is an association list. \<open>dict_set\<close> is
  \<open>db[k] = v\<close>: an existing key keeps its position, a new key goes to the end.
\<close>

type_synonym 'r dict = "(pystr \<times> 'r) list"

definition dict_get :: "'r dict \<Rightarrow> pystr \<Rightarrow> 'r option" where
  "dict_get db k = map_of db k"

fun dict_set :: "'r dict \<Rightarrow> pystr \<Rightarrow> 'r \<Rightarrow> 'r dict" where
  "dict_set [] k v = [(k, v)]"
| "dict_set ((k', v') # kvs) k v = (if k' = k then (k, v) # kvs else (k', v') # dict_set kvs k v)"

text \<open>
  What a storage file can hold, as \<open>_load\<close> tells it apart: no file at all; bytes that are
  not UTF-8 (the file is opened in text mode with \<open>encoding="utf-8"\<close>, so reading it
  raises \<open>UnicodeDecodeError\<close>); text that \<open>json.load\<close> rejects with \<open>JSONDecodeError\<close>;
  or the JSON text of a collection. \<open>json.dump\<close> followed by \<open>json.load\<close> gives the
  collection back: that property of the JSON library is built into \<open>Document\<close>.
\<close>

datatype 'r json_file = Absent | Undecodable | Malformed | Document "'r dict"

datatype py_error = AttributeError | KeyError | TypeError | UnicodeDecodeError

text \<open>\<open>_load\<close>: only the missing file and \<open>JSONDecodeError\<close> are turned into \<open>{}\<close>.\<close>

fun load :: "'r json_file \<Rightarrow> py_error + 'r dict" where
  "load Absent = Inr []"
| "load Undecodable = Inl UnicodeDecodeError"
| "load Malformed = Inr []"
| "load (Document db) = Inr db"

text \<open>\<open>_save\<close>: the file is opened with mode \<open>"w"\<close> and the whole collection is written.\<close>

definition save :: "'r dict \<Rightarrow> 'r json_file" where
  "save db = Document db"

section \<open>Orders, tickets, sessions\<close>

text \<open>
  An order is the dictionary built in \<open>buy_delivery\<close>; its values are strings and one
  integer. A ticket is built with a fixed set of keys in \<open>w_remote\<close>, so it is a record;
  \<open>serial\<close> and \<open>issue\<close> come from \<open>data.get\<close> and may be \<open>None\<close>.
\<close>

datatype jval = JStr pystr | JInt int

type_synonym order = "pystr \<rightharpoonup> jval"

record hist_event =
  ts :: pystr
  event :: pystr

record ticket =
  created_at :: pystr
  serial :: "pystr option"
  issue :: "pystr option"
  remote_ok :: bool
  status :: pystr
  history :: "hist_event list"

datatype fsm =
    BuyForm_taking_name | BuyForm_taking_email | BuyForm_taking_phone | BuyForm_taking_city
  | BuyForm_taking_address | BuyForm_taking_delivery | BuyForm_confirm
  | WarrantyForm_taking_serial | WarrantyForm_taking_issue | WarrantyForm_ask_remote
  | WarrantyForm_schedule_remote | WarrantyForm_tl_wait | WarrantyForm_asc_redirect
  | WarrantyForm_asc_control | WarrantyForm_repair | WarrantyForm_handover
  | WarrantyForm_feedback

text \<open>
  The FSM context of one chat: the current state and the collected data. \<open>set_state\<close>
  leaves the data alone, \<open>update_data\<close> merges one key in, \<open>clear\<close> resets both.
\<close>

record session =
  state :: "fsm option"
  data :: "pystr \<rightharpoonup> pystr"

record world =
  orders_file :: "order json_file"
  tickets_file :: "ticket json_file"
  session :: session
  is_admin :: bool

definition set_state :: "fsm \<Rightarrow> world \<Rightarrow> world" where
  "set_state s w = w\<lparr>session := (session w)\<lparr>state := Some s\<rparr>\<rparr>"

definition update_data :: "pystr \<Rightarrow> pystr \<Rightarrow> world \<Rightarrow> world" where
  "update_data k v w = w\<lparr>session := (session w)\<lparr>data := (data (session w))(k \<mapsto> v)\<rparr>\<rparr>"

definition get_data :: "world \<Rightarrow> pystr \<rightharpoonup> pystr" where
  "get_data w = data (session w)"

definition clear :: "world \<Rightarrow> world" where
  "clear w = w\<lparr>session := \<lparr>state = None, data = Map.empty\<rparr>\<rparr>"

section \<open>What the bot sends\<close>

text \<open>
  A keyboard is the list of the callback data of its buttons. The texts sent to the user
  are named rather than spelled out; the identifiers they carry are kept. Notifications
  to the operator chat are sent after the stores are written and inside
  \<open>try ... except Exception: pass\<close>, so they change nothing below and are left out.
\<close>

definition main_menu :: "pystr list" where
  "main_menu = [lit ''menu_presentation'', lit ''menu_buy'', lit ''menu_warranty'', lit ''menu_contacts'']"

definition back_menu :: "pystr list" where
  "back_menu = [lit ''menu_home'']"

definition delivery_kb :: "pystr list" where
  "delivery_kb = [lit ''del_standard'', lit ''del_express'', lit ''del_pickup'', lit ''buy_back'']"

definition yesno_kb :: "pystr list" where
  "yesno_kb = [lit ''yes'', lit ''no'']"

definition warranty_progress_kb :: "pystr \<Rightarrow> pystr list" where
  "warranty_progress_kb ticket_id =
     [lit ''tl_wait:'' @ ticket_id, lit ''asc_redirect:'' @ ticket_id,
      lit ''asc_control:'' @ ticket_id, lit ''repair:'' @ ticket_id,
      lit ''handover:'' @ ticket_id, lit ''feedback:'' @ ticket_id, lit ''menu_home'']"

datatype prompt =
    Welcome | MainMenu | Presentation | Contacts
  | AskName | AskEmail | EmailRetry | AskPhone | AskCity | AskAddress | AskDelivery
  | OrderCreated pystr
  | WarrantyIntro | AskIssue | AskRemote
  | TicketCreatedSchedule pystr | TicketCreatedLead pystr | EngineerSlot
  | Progress pystr pystr
  | NoOrders | OrdersList | NoTickets | TicketsList

datatype reply =
    Answer prompt "pystr list"
  | CallbackAnswer
  | TicketNotFoundAlert
  | OrderPlacedNotice

text \<open>
  A handler either returns, having sent its replies, or raises; the effects it had before
  raising stay, so both outcomes carry the world.
\<close>

datatype outcome = Returned world "reply list" | Raised py_error world

fun world_of :: "outcome \<Rightarrow> world" where
  "world_of (Returned w rs) = w"
| "world_of (Raised e w) = w"

fun replies_of :: "outcome \<Rightarrow> reply list" where
  "replies_of (Returned w rs) = rs"
| "replies_of (Raised e w) = []"

section \<open>Identifiers\<close>

definition next_ticket_id :: "datetime \<Rightarrow> ticket json_file \<Rightarrow> py_error + pystr" where
  "next_ticket_id now f =
     (case load f of
        Inl e \<Rightarrow> Inl e
      | Inr db \<Rightarrow> Inr (lit ''T'' @ strftime_Ymd now @ lit ''-'' @ fmt_0d 4 (length db + 1)))"

definition next_order_id :: "datetime \<Rightarrow> order json_file \<Rightarrow> py_error + pystr" where
  "next_order_id now f =
     (case load f of
        Inl e \<Rightarrow> Inl e
      | Inr db \<Rightarrow> Inr (lit ''O'' @ strftime_Ymd now @ lit ''-'' @ fmt_0d 4 (length db + 1)))"

section \<open>Start and menu\<close>

definition cmd_start :: "world \<Rightarrow> outcome" where
  "cmd_start w = Returned w [Answer Welcome main_menu]"

definition cb_home :: "world \<Rightarrow> outcome" where
  "cb_home w = Returned w [Answer MainMenu main_menu, CallbackAnswer]"

definition cb_presentation :: "world \<Rightarrow> outcome" where
  "cb_presentation w =
     Returned w [Answer Presentation [lit ''menu_buy'', lit ''menu_warranty'', lit ''menu_home''],
                 CallbackAnswer]"

definition cb_contacts :: "world \<Rightarrow> outcome" where
  "cb_contacts w = Returned w [Answer Contacts back_menu, CallbackAnswer]"

section \<open>Buy flow\<close>

definition PRODUCT_name :: pystr where
  "PRODUCT_name = lit ''OSIO Focus line 14''"

definition PRODUCT_price :: int where
  "PRODUCT_price = 14999"

definition cb_buy :: "world \<Rightarrow> outcome" where
  "cb_buy w = Returned (set_state BuyForm_taking_name w) [Answer AskName [], CallbackAnswer]"

text \<open>
  The text of a message is \<open>None\<close> for a message without text (a photo, a sticker);
  \<open>msg.text.strip()\<close> then raises \<open>AttributeError\<close> before anything is stored.
\<close>

definition buy_name :: "pystr option \<Rightarrow> world \<Rightarrow> outcome" where
  "buy_name msg_text w =
     (case msg_text of
        None \<Rightarrow> Raised AttributeError w
      | Some t \<Rightarrow>
          Returned (set_state BuyForm_taking_email (update_data (lit ''name'') (strip t) w))
            [Answer AskEmail []])"

definition buy_email :: "pystr option \<Rightarrow> world \<Rightarrow> outcome" where
  "buy_email msg_text w =
     (case msg_text of
        None \<Rightarrow> Raised AttributeError w
      | Some t \<Rightarrow>
          (let email = strip t in
           if \<not> re_match email_pattern email then Returned w [Answer EmailRetry []]
           else Returned (set_state BuyForm_taking_phone (update_data (lit ''email'') email w))
                  [Answer AskPhone []]))"

definition buy_phone :: "pystr option \<Rightarrow> world \<Rightarrow> outcome" where
  "buy_phone msg_text w =
     (case msg_text of
        None \<Rightarrow> Raised AttributeError w
      | Some t \<Rightarrow>
          Returned (set_state BuyForm_taking_city (update_data (lit ''phone'') (strip t) w))
            [Answer AskCity []])"

definition buy_city :: "pystr option \<Rightarrow> world \<Rightarrow> outcome" where
  "buy_city msg_text w =
     (case msg_text of
        None \<Rightarrow> Raised AttributeError w
      | Some t \<Rightarrow>
          Returned (set_state BuyForm_taking_address (update_data (lit ''city'') (strip t) w))
            [Answer AskAddress []])"

definition buy_address :: "pystr option \<Rightarrow> world \<Rightarrow> outcome" where
  "buy_address msg_text w =
     (case msg_text of
        None \<Rightarrow> Raised AttributeError w
      | Some t \<Rightarrow>
          Returned (set_state BuyForm_taking_delivery (update_data (lit ''address'') (strip t) w))
            [Answer AskDelivery delivery_kb])"

text \<open>The labels of \<open>options\<close> in \<open>buy_delivery\<close>, and the default of \<open>options.get\<close>.\<close>

definition label_standard :: pystr where
  "label_standard = [0x421, 0x442, 0x430, 0x43D, 0x434, 0x430, 0x440, 0x442, 0x43D, 0x430, 0x44F,
     0x20, 0x28, 0x33, 0x2013, 0x35, 0x20, 0x434, 0x43D, 0x435, 0x439, 0x29]"

definition label_express :: pystr where
  "label_express = [0x42D, 0x43A, 0x441, 0x43F, 0x440, 0x435, 0x441, 0x441,
     0x20, 0x28, 0x31, 0x2013, 0x32, 0x20, 0x434, 0x43D, 0x44F, 0x29]"

definition label_pickup :: pystr where
  "label_pickup = [0x421, 0x430, 0x43C, 0x43E, 0x432, 0x44B, 0x432, 0x43E, 0x437,
     0x20, 0x43F, 0x430, 0x440, 0x442, 0x43D, 0x451, 0x440]"

definition label_default :: pystr where
  "label_default = [0x421, 0x442, 0x430, 0x43D, 0x434, 0x430, 0x440, 0x442, 0x43D, 0x430, 0x44F]"

definition options :: "(pystr \<times> pystr) list" where
  "options = [(lit ''del_standard'', label_standard), (lit ''del_express'', label_express),
              (lit ''del_pickup'', label_pickup)]"

definition options_get :: "pystr \<Rightarrow> pystr" where
  "options_get cb_data = (case map_of options cb_data of Some l \<Rightarrow> l | None \<Rightarrow> label_default)"

text \<open>
  The order written by \<open>buy_delivery\<close>: the three computed entries, then \<open>**data\<close>, whose
  entries win where a key occurs on both sides.
\<close>

definition order_of :: "pystr \<Rightarrow> (pystr \<rightharpoonup> pystr) \<Rightarrow> order" where
  "order_of created d =
     [lit ''created_at'' \<mapsto> JStr created, lit ''product'' \<mapsto> JStr PRODUCT_name,
      lit ''price'' \<mapsto> JInt PRODUCT_price] ++ (\<lambda>k. map_option JStr (d k))"

definition buy_delivery :: "pystr \<Rightarrow> (nat \<Rightarrow> datetime) \<Rightarrow> world \<Rightarrow> outcome" where
  "buy_delivery cb_data now w =
     (let w1 = update_data (lit ''delivery'') (options_get cb_data) w;
          d = get_data w1
      in case next_order_id (now 0) (orders_file w1) of
           Inl e \<Rightarrow> Raised e w1
         | Inr order_id \<Rightarrow>
             (case load (orders_file w1) of
                Inl e \<Rightarrow> Raised e w1
              | Inr db \<Rightarrow>
                  (let db' = dict_set db order_id (order_of (isoformat (now 1)) d);
                       w2 = w1\<lparr>orders_file := save db'\<rparr>
                   in Returned (clear w2)
                        [Answer (OrderCreated order_id) back_menu, OrderPlacedNotice])))"

section \<open>Warranty flow\<close>

definition cb_warranty :: "world \<Rightarrow> outcome" where
  "cb_warranty w =
     Returned (set_state WarrantyForm_taking_serial w) [Answer WarrantyIntro [], CallbackAnswer]"

text \<open>
  \<open>w_serial\<close> stores \<open>re.sub(r"\s+", "", msg.text.upper())\<close>. \<open>str.upper\<close> is the case
  mapping of the Unicode database and is taken as a parameter; \<open>\s\<close> is the white space of
  \<open>isspace\<close>.
\<close>

definition w_serial :: "(pystr \<Rightarrow> pystr) \<Rightarrow> pystr option \<Rightarrow> world \<Rightarrow> outcome" where
  "w_serial upper msg_text w =
     (case msg_text of
        None \<Rightarrow> Raised AttributeError w
      | Some t \<Rightarrow>
          (let serial = filter (\<lambda>c. \<not> isspace c) (upper t) in
           Returned (set_state WarrantyForm_taking_issue (update_data (lit ''serial'') serial w))
             [Answer AskIssue []]))"

definition w_issue :: "pystr option \<Rightarrow> world \<Rightarrow> outcome" where
  "w_issue msg_text w =
     (case msg_text of
        None \<Rightarrow> Raised AttributeError w
      | Some t \<Rightarrow>
          Returned (set_state WarrantyForm_ask_remote (update_data (lit ''issue'') (strip t) w))
            [Answer AskRemote yesno_kb])"

text \<open>
  \<open>w_remote\<close> creates the ticket. The clock is read four times: for the identifier, for
  \<open>created_at\<close> and for the two history entries.
\<close>

definition new_ticket :: "pystr \<Rightarrow> (nat \<Rightarrow> datetime) \<Rightarrow> (pystr \<rightharpoonup> pystr) \<Rightarrow> ticket" where
  "new_ticket cb_data now d =
     \<lparr>created_at = isoformat (now 1),
      serial = d (lit ''serial''),
      issue = d (lit ''issue''),
      remote_ok = (cb_data = lit ''yes''),
      status = (if cb_data = lit ''yes'' then lit ''remote_scheduled'' else lit ''tl_wait''),
      history = [\<lparr>ts = isoformat (now 2), event = lit ''created''\<rparr>,
                 \<lparr>ts = isoformat (now 3), event = lit ''remote_consent:'' @ cb_data\<rparr>]\<rparr>"

definition w_remote :: "pystr \<Rightarrow> (nat \<Rightarrow> datetime) \<Rightarrow> world \<Rightarrow> outcome" where
  "w_remote cb_data now w =
     (let d = get_data w in
      case next_ticket_id (now 0) (tickets_file w) of
        Inl e \<Rightarrow> Raised e w
      | Inr ticket_id \<Rightarrow>
          (case load (tickets_file w) of
             Inl e \<Rightarrow> Raised e w
           | Inr db \<Rightarrow>
               (let w1 = w\<lparr>tickets_file := save (dict_set db ticket_id (new_ticket cb_data now d))\<rparr>
                in if cb_data = lit ''yes''
                   then Returned (set_state WarrantyForm_schedule_remote w1)
                          [Answer (TicketCreatedSchedule ticket_id) [], CallbackAnswer]
                   else Returned (set_state WarrantyForm_tl_wait w1)
                          [Answer (TicketCreatedLead ticket_id) (warranty_progress_kb ticket_id),
                           CallbackAnswer])))"

text \<open>
  \<open>sorted(db.items(), key=lambda x: x[1]["created_at"], reverse=True)\<close>: a stable sort,
  and \<open>reverse=True\<close> keeps the original order of entries with equal keys.
\<close>

definition sorted_created_desc :: "ticket dict \<Rightarrow> ticket dict" where
  "sorted_created_desc db = rev (sort_key (\<lambda>x. created_at (snd x)) (rev db))"

text \<open>
  The search loop of \<open>w_schedule_remote\<close>. \<open>data["serial"]\<close> and \<open>data["issue"]\<close> raise
  \<open>KeyError\<close> when the session lacks them; \<open>and\<close> evaluates its right side only when the
  serials are equal.
\<close>

fun find_ticket :: "(pystr \<rightharpoonup> pystr) \<Rightarrow> ticket dict \<Rightarrow> py_error + pystr option" where
  "find_ticket d [] = Inr None"
| "find_ticket d ((k, v) # rest) =
     (case d (lit ''serial'') of
        None \<Rightarrow> Inl KeyError
      | Some s \<Rightarrow>
          if serial v = Some s then
            (case d (lit ''issue'') of
               None \<Rightarrow> Inl KeyError
             | Some i \<Rightarrow> if issue v = Some i then Inr (Some k) else find_ticket d rest)
          else find_ticket d rest)"

text \<open>\<open>if ticket_id:\<close> is false for \<open>None\<close> and for the empty string.\<close>

fun truthy :: "pystr option \<Rightarrow> bool" where
  "truthy None \<longleftrightarrow> False"
| "truthy (Some k) \<longleftrightarrow> k \<noteq> []"

definition schedule_ticket :: "pystr \<Rightarrow> pystr \<Rightarrow> ticket \<Rightarrow> ticket" where
  "schedule_ticket stamp schedule v =
     v\<lparr>history := history v @ [\<lparr>ts = stamp, event = lit ''remote_scheduled:'' @ schedule\<rparr>],
       status := lit ''remote_scheduled''\<rparr>"

definition w_schedule_remote :: "pystr option \<Rightarrow> (nat \<Rightarrow> datetime) \<Rightarrow> world \<Rightarrow> outcome" where
  "w_schedule_remote msg_text now w =
     (case msg_text of
        None \<Rightarrow> Raised AttributeError w
      | Some t \<Rightarrow>
          (let schedule = strip t;
               w1 = update_data (lit ''schedule'') schedule w;
               d = get_data w1
           in case load (tickets_file w1) of
                Inl e \<Rightarrow> Raised e w1
              | Inr db \<Rightarrow>
                  (case find_ticket d (sorted_created_desc db) of
                     Inl e \<Rightarrow> Raised e w1
                   | Inr ticket_id \<Rightarrow>
                       (case (if truthy ticket_id then ticket_id else None) of
                          None \<Rightarrow>
                            Returned (set_state WarrantyForm_tl_wait w1)
                              [Answer EngineerSlot (warranty_progress_kb (lit ''unknown''))]
                        | Some k \<Rightarrow>
                            (case dict_get db k of
                               None \<Rightarrow> Raised KeyError w1
                             | Some v \<Rightarrow>
                                 Returned
                                   (set_state WarrantyForm_tl_wait
                                      (w1\<lparr>tickets_file :=
                                            save (dict_set db k
                                                    (schedule_ticket (isoformat (now 0)) schedule v))\<rparr>))
                                   [Answer EngineerSlot (warranty_progress_kb k)])))))"

text \<open>The stage actions: \<open>mapping\<close> gives the status an action sets.\<close>

definition stage_actions :: "pystr list" where
  "stage_actions = [lit ''tl_wait'', lit ''asc_redirect'', lit ''asc_control'', lit ''repair'',
                    lit ''handover'', lit ''feedback'']"

definition mapping :: "(pystr \<times> pystr) list" where
  "mapping = [(lit ''tl_wait'', lit ''tl_wait''), (lit ''asc_redirect'', lit ''asc_redirect''),
              (lit ''asc_control'', lit ''asc_control''), (lit ''repair'', lit ''repair''),
              (lit ''handover'', lit ''handover''), (lit ''feedback'', lit ''closed'')]"

definition advance_ticket :: "pystr \<Rightarrow> pystr \<Rightarrow> pystr \<Rightarrow> ticket \<Rightarrow> ticket" where
  "advance_ticket stamp action new_status v =
     v\<lparr>history := history v @ [\<lparr>ts = stamp, event = action\<rparr>], status := new_status\<rparr>"

definition w_progress :: "pystr \<Rightarrow> (nat \<Rightarrow> datetime) \<Rightarrow> world \<Rightarrow> outcome" where
  "w_progress cb_data now w =
     (let (action, ticket_id) = partition_at 58 cb_data in
      case load (tickets_file w) of
        Inl e \<Rightarrow> Raised e w
      | Inr db \<Rightarrow>
          (case dict_get db ticket_id of
             None \<Rightarrow> Returned w [TicketNotFoundAlert]
           | Some v \<Rightarrow>
               (case map_of mapping action of
                  None \<Rightarrow> Raised KeyError w
                | Some new_status \<Rightarrow>
                    Returned
                      (w\<lparr>tickets_file :=
                           save (dict_set db ticket_id
                                   (advance_ticket (isoformat (now 0)) action new_status v))\<rparr>)
                      [Answer (Progress ticket_id action) [], CallbackAnswer])))"

section \<open>Operator queries\<close>

text \<open>
  \<open>is_admin\<close> says that \<open>ADMIN_CHAT_ID\<close> is set and is the chat of the session. The lists
  read \<open>v['product']\<close>, \<open>v['price']\<close>, \<open>v['email']\<close> of every order and slice
  \<open>v['issue']\<close> of every ticket.
\<close>

definition admin_orders :: "world \<Rightarrow> outcome" where
  "admin_orders w =
     (if \<not> is_admin w then Returned w []
      else case load (orders_file w) of
             Inl e \<Rightarrow> Raised e w
           | Inr db \<Rightarrow>
               if db = [] then Returned w [Answer NoOrders []]
               else if list_all (\<lambda>(k, v). v (lit ''product'') \<noteq> None \<and> v (lit ''price'') \<noteq> None
                                       \<and> v (lit ''email'') \<noteq> None) db
               then Returned w [Answer OrdersList []]
               else Raised KeyError w)"

definition admin_tickets :: "world \<Rightarrow> outcome" where
  "admin_tickets w =
     (if \<not> is_admin w then Returned w []
      else case load (tickets_file w) of
             Inl e \<Rightarrow> Raised e w
           | Inr db \<Rightarrow>
               if db = [] then Returned w [Answer NoTickets []]
               else if list_all (\<lambda>(k, v). issue v \<noteq> None) db
               then Returned w [Answer TicketsList []]
               else Raised TypeError w)"

section \<open>The router\<close>

text \<open>
  An update is a message or a callback query. The router tries the handlers of the
  update's kind in the order of their registration and runs the first whose filters
  hold; an update that no handler accepts changes nothing. Whether a message is one of
  the commands is decided by the framework's command filter (from the text or the
  caption, and the bot's name), so a message carries that verdict.
\<close>

datatype command = Start | Orders | Tickets

datatype update = Message "pystr option" "command option" | Callback pystr

definition dispatch_message ::
  "(pystr \<Rightarrow> pystr) \<Rightarrow> pystr option \<Rightarrow> command option \<Rightarrow> (nat \<Rightarrow> datetime) \<Rightarrow> world \<Rightarrow> outcome"
where
  "dispatch_message upper msg_text cmd now w =
     (let st = state (session w) in
      if cmd = Some Start then cmd_start w
      else if st = Some BuyForm_taking_name then buy_name msg_text w
      else if st = Some BuyForm_taking_email then buy_email msg_text w
      else if st = Some BuyForm_taking_phone then buy_phone msg_text w
      else if st = Some BuyForm_taking_city then buy_city msg_text w
      else if st = Some BuyForm_taking_address then buy_address msg_text w
      else if st = Some WarrantyForm_taking_serial then w_serial upper msg_text w
      else if st = Some WarrantyForm_taking_issue then w_issue msg_text w
      else if st = Some WarrantyForm_schedule_remote then w_schedule_remote msg_text now w
      else if cmd = Some Orders then admin_orders w
      else if cmd = Some Tickets then admin_tickets w
      else Returned w [])"

definition dispatch_callback :: "pystr \<Rightarrow> (nat \<Rightarrow> datetime) \<Rightarrow> world \<Rightarrow> outcome" where
  "dispatch_callback cb_data now w =
     (let st = state (session w) in
      if cb_data = lit ''menu_home'' then cb_home w
      else if cb_data = lit ''menu_presentation'' then cb_presentation w
      else if cb_data = lit ''menu_contacts'' then cb_contacts w
      else if cb_data = lit ''menu_buy'' then cb_buy w
      else if st = Some BuyForm_taking_delivery \<and> startswith cb_data (lit ''del_'')
        then buy_delivery cb_data now w
      else if cb_data = lit ''menu_warranty'' then cb_warranty w
      else if st = Some WarrantyForm_ask_remote \<and> cb_data \<in> {lit ''yes'', lit ''no''}
        then w_remote cb_data now w
      else if startswith_any cb_data stage_actions then w_progress cb_data now w
      else Returned w [])"

fun dispatch :: "(pystr \<Rightarrow> pystr) \<Rightarrow> update \<Rightarrow> (nat \<Rightarrow> datetime) \<Rightarrow> world \<Rightarrow> outcome" where
  "dispatch upper (Message msg_text cmd) now w = dispatch_message upper msg_text cmd now w"
| "dispatch upper (Callback cb_data) now w = dispatch_callback cb_data now w"

text \<open>A run of the bot: the updates of one chat, each with its clock readings.\<close>

fun run :: "(pystr \<Rightarrow> pystr) \<Rightarrow> (update \<times> (nat \<Rightarrow> datetime)) list \<Rightarrow> world \<Rightarrow> world" where
  "run upper [] w = w"
| "run upper ((u, now) # us) w = run upper us (world_of (dispatch upper u now w))"

text \<open>
  Updates of several chats: the stores are shared, and each update is handled with the
  session of its own chat, which is given with the update.
\<close>

fun run_chats ::
  "(pystr \<Rightarrow> pystr) \<Rightarrow> (session \<times> update \<times> (nat \<Rightarrow> datetime)) list \<Rightarrow> world \<Rightarrow> world"
where
  "run_chats upper [] w = w"
| "run_chats upper ((s, u, now) # us) w =
     run_chats upper us (world_of (dispatch upper u now (w\<lparr>session := s\<rparr>)))"

section \<open>Vocabulary of the specification\<close>

text \<open>
  The notions the specification uses, written from its words, to compare the code with:
  a string of decimal digits and its value, a number zero-padded to a width, a date
  written \<open>YYYYMMDD\<close>, and a string with a prefix of the shape \<open>local@domain.tld\<close>.
  A date of the clock has a four-digit year.
\<close>

definition is_digits :: "pystr \<Rightarrow> bool" where
  "is_digits s \<longleftrightarrow> list_all (\<lambda>c. 48 \<le> c \<and> c \<le> 57) s"

definition digits_value :: "pystr \<Rightarrow> nat" where
  "digits_value s = foldl (\<lambda>a c. 10 * a + (c - 48)) 0 s"

definition zero_padded :: "nat \<Rightarrow> nat \<Rightarrow> pystr \<Rightarrow> bool" where
  "zero_padded width n s \<longleftrightarrow>
     is_digits s \<and> digits_value s = n \<and> width \<le> length s \<and> (width < length s \<longrightarrow> hd s \<noteq> 48)"

definition is_YYYYMMDD :: "datetime \<Rightarrow> pystr \<Rightarrow> bool" where
  "is_YYYYMMDD d s \<longleftrightarrow>
     length s = 8 \<and> is_digits s \<and> digits_value (take 4 s) = year d
     \<and> digits_value (take 2 (drop 4 s)) = month d \<and> digits_value (drop 6 s) = day d"

definition valid_date :: "datetime \<Rightarrow> bool" where
  "valid_date d \<longleftrightarrow> 1000 \<le> year d \<and> year d \<le> 9999 \<and> 1 \<le> month d \<and> month d \<le> 12 \<and> 1 \<le> day d \<and> day d \<le> 31"

definition email_shaped :: "pystr \<Rightarrow> bool" where
  "email_shaped s \<longleftrightarrow>
     (\<exists>local domain tld rest.
        s = local @ [64] @ domain @ [46] @ tld @ rest
        \<and> local \<noteq> [] \<and> 64 \<notin> set local \<and> domain \<noteq> [] \<and> 64 \<notin> set domain
        \<and> tld \<noteq> [] \<and> 64 \<notin> set tld)"

text \<open>Sample inputs for the closed instances below.\<close>

definition example_now :: datetime where
  "example_now = \<lparr>year = 2025, month = 3, day = 9, hour = 14, minute = 5, second = 7,
     microsecond = 0\<rparr>"

definition example_world :: world where
  "example_world = \<lparr>orders_file = Absent, tickets_file = Absent,
     session = \<lparr>state = None, data = Map.empty\<rparr>, is_admin = False\<rparr>"

text \<open>The status each stage action sets, as the specification lists it.\<close>

definition spec_status :: "pystr \<Rightarrow> pystr" where
  "spec_status action = (if action = lit ''feedback'' then lit ''closed'' else action)"

definition example_clock :: "nat \<Rightarrow> datetime" where
  "example_clock i = example_now"

definition example_ticket :: ticket where
  "example_ticket = \<lparr>created_at = lit ''2025-03-01T10:00:00'', serial = Some (lit ''SN-01''),
     issue = Some (lit ''screen flicker''), remote_ok = False, status = lit ''closed'',
     history = [\<lparr>ts = lit ''2025-03-01T10:00:00'', event = lit ''created''\<rparr>,
                \<lparr>ts = lit ''2025-03-01T10:00:00'', event = lit ''remote_consent:no''\<rparr>,
                \<lparr>ts = lit ''2025-03-02T09:00:00'', event = lit ''feedback''\<rparr>]\<rparr>"

definition example_store :: world where
  "example_store = example_world\<lparr>tickets_file := Document [(lit ''T20250301-0001'', example_ticket)]\<rparr>"

text \<open>A ticket matches a session when its serial and its issue are the session's.\<close>

definition matches :: "pystr \<Rightarrow> pystr \<Rightarrow> pystr \<times> ticket \<Rightarrow> bool" where
  "matches s i kv \<longleftrightarrow> serial (snd kv) = Some s \<and> issue (snd kv) = Some i"

definition example_ticket2 :: ticket where
  "example_ticket2 = \<lparr>created_at = lit ''2025-03-05T08:30:00'', serial = Some (lit ''SN-01''),
     issue = Some (lit ''screen flicker''), remote_ok = True, status = lit ''remote_scheduled'',
     history = [\<lparr>ts = lit ''2025-03-05T08:30:00'', event = lit ''created''\<rparr>,
                \<lparr>ts = lit ''2025-03-05T08:30:00'', event = lit ''remote_consent:yes''\<rparr>]\<rparr>"

definition example_tickets :: "ticket dict" where
  "example_tickets = [(lit ''T20250301-0001'', example_ticket), (lit ''T20250305-0002'', example_ticket2)]"

definition example_data :: "pystr \<rightharpoonup> pystr" where
  "example_data = [lit ''serial'' \<mapsto> lit ''SN-01'', lit ''issue'' \<mapsto> lit ''screen flicker'']"

definition example_other_data :: "pystr \<rightharpoonup> pystr" where
  "example_other_data = [lit ''serial'' \<mapsto> lit ''SN-99'', lit ''issue'' \<mapsto> lit ''no sound'']"

definition example_ask_remote :: world where
  "example_ask_remote = \<lparr>orders_file = Absent, tickets_file = Absent,
     session = \<lparr>state = Some WarrantyForm_ask_remote, data = example_data\<rparr>, is_admin = False\<rparr>"

definition example_schedule :: world where
  "example_schedule = \<lparr>orders_file = Absent, tickets_file = Document example_tickets,
     session = \<lparr>state = Some WarrantyForm_schedule_remote, data = example_data\<rparr>,
     is_admin = False\<rparr>"

definition example_schedule_other :: world where
  "example_schedule_other = \<lparr>orders_file = Absent, tickets_file = Document example_tickets,
     session = \<lparr>state = Some WarrantyForm_schedule_remote, data = example_other_data\<rparr>,
     is_admin = False\<rparr>"

text \<open>
  The collection a storage file holds, empty when it cannot be loaded; Python's
  \<open>str.upper\<close> on ASCII text; and the field of a stored order.
\<close>

definition stored :: "'r json_file \<Rightarrow> 'r dict" where
  "stored f = (case load f of Inl e \<Rightarrow> [] | Inr db \<Rightarrow> db)"

definition ascii_upper :: "pystr \<Rightarrow> pystr" where
  "ascii_upper s = map (\<lambda>c. if 97 \<le> c \<and> c \<le> 122 then c - 32 else c) s"

definition order_field :: "order dict \<Rightarrow> pystr \<Rightarrow> pystr \<Rightarrow> jval option" where
  "order_field db k f = (case dict_get db k of None \<Rightarrow> None | Some ord \<Rightarrow> ord f)"

text \<open>
  The entries of an order the specification names, the keys the handlers ever store in
  a session, and the fields each step of the order flow has collected before it.
\<close>

definition order_fields :: "pystr list" where
  "order_fields = [lit ''name'', lit ''email'', lit ''phone'', lit ''city'', lit ''address'',
                   lit ''delivery'', lit ''created_at'', lit ''product'', lit ''price'']"

definition session_keys :: "pystr list" where
  "session_keys = [lit ''name'', lit ''email'', lit ''phone'', lit ''city'', lit ''address'',
                   lit ''delivery'', lit ''serial'', lit ''issue'', lit ''schedule'']"

fun required :: "fsm option \<Rightarrow> pystr list" where
  "required (Some BuyForm_taking_email) = [lit ''name'']"
| "required (Some BuyForm_taking_phone) = [lit ''name'', lit ''email'']"
| "required (Some BuyForm_taking_city) = [lit ''name'', lit ''email'', lit ''phone'']"
| "required (Some BuyForm_taking_address) = [lit ''name'', lit ''email'', lit ''phone'', lit ''city'']"
| "required (Some BuyForm_taking_delivery) =
     [lit ''name'', lit ''email'', lit ''phone'', lit ''city'', lit ''address'']"
| "required st = []"

definition flow_inv :: "world \<Rightarrow> bool" where
  "flow_inv w \<longleftrightarrow>
     list_all (\<lambda>k. data (session w) k \<noteq> None) (required (state (session w)))
     \<and> dom (data (session w)) \<subseteq> set session_keys"

definition example_delivery :: world where
  "example_delivery = \<lparr>orders_file = Absent, tickets_file = Absent,
     session = \<lparr>state = Some BuyForm_taking_delivery,
       data = [lit ''name'' \<mapsto> lit ''Thandi M'', lit ''email'' \<mapsto> lit ''t@x.co'',
               lit ''phone'' \<mapsto> lit ''+27 10 555 0123'', lit ''city'' \<mapsto> lit ''Durban'',
               lit ''address'' \<mapsto> lit ''1 Main Rd'']\<rparr>,
     is_admin = False\<rparr>"

definition example_buy_trace :: "(update \<times> (nat \<Rightarrow> datetime)) list" where
  "example_buy_trace =
     [(Callback (lit ''menu_buy''), example_clock),
      (Message (Some (lit ''Thandi M'')) None, example_clock),
      (Message (Some (lit ''t@x.co'')) None, example_clock),
      (Message (Some (lit ''+27 10 555 0123'')) None, example_clock),
      (Message (Some (lit ''Durban'')) None, example_clock),
      (Message (Some (lit ''1 Main Rd'')) None, example_clock)]"

definition example_warranty_then_buy :: "(update \<times> (nat \<Rightarrow> datetime)) list" where
  "example_warranty_then_buy =
     [(Callback (lit ''menu_warranty''), example_clock),
      (Message (Some (lit ''sn-01'')) None, example_clock)]
     @ example_buy_trace
     @ [(Callback (lit ''del_standard''), example_clock)]"

text \<open>
  The status an event of the history sets, and the status a history leads to: that of its
  most recent status-setting event. A stage action sets its mapped status, a
  \<open>remote_scheduled:<text>\<close> event sets \<open>remote_scheduled\<close>, and the consent event of the
  creation sets the initial status; \<open>created\<close> sets none.
\<close>

definition status_set_by :: "pystr \<Rightarrow> pystr option" where
  "status_set_by e =
     (if e \<in> set stage_actions then map_of mapping e
      else if startswith e (lit ''remote_scheduled:'') then Some (lit ''remote_scheduled'')
      else if e = lit ''remote_consent:yes'' then Some (lit ''remote_scheduled'')
      else if e = lit ''remote_consent:no'' then Some (lit ''tl_wait'')
      else None)"

definition derived_status :: "hist_event list \<Rightarrow> pystr option" where
  "derived_status h =
     (case find (\<lambda>e. status_set_by e \<noteq> None) (rev (map event h)) of
        None \<Rightarrow> None
      | Some e \<Rightarrow> status_set_by e)"

definition ticket_ok :: "ticket \<Rightarrow> bool" where
  "ticket_ok v \<longleftrightarrow> derived_status (history v) = Some (status v)"

definition id_seq :: "pystr \<Rightarrow> nat" where
  "id_seq k = digits_value (rev (takeWhile (\<lambda>c. c \<noteq> 45) (rev k)))"

definition ids_ok :: "ticket dict \<Rightarrow> bool" where
  "ids_ok db \<longleftrightarrow> (\<forall>k \<in> set (map fst db). id_seq k \<le> length db)"

definition all_ok :: "ticket dict \<Rightarrow> bool" where
  "all_ok db \<longleftrightarrow> (\<forall>k v. dict_get db k = Some v \<longrightarrow> ticket_ok v)"

definition grows :: "ticket dict \<Rightarrow> ticket dict \<Rightarrow> bool" where
  "grows db db' \<longleftrightarrow>
     (\<forall>k v. dict_get db k = Some v \<longrightarrow>
        (\<exists>v'. dict_get db' k = Some v' \<and> prefix (history v) (history v')))"

text \<open>
  The specification's reading: the name of the most recent stage-transition event.
\<close>

definition last_stage_event :: "pystr list \<Rightarrow> pystr option" where
  "last_stage_event evs = find (\<lambda>e. e \<in> set stage_actions) (rev evs)"

definition ticket_status :: "ticket dict \<Rightarrow> pystr \<Rightarrow> pystr option" where
  "ticket_status db k = map_option status (dict_get db k)"

definition ticket_events :: "ticket dict \<Rightarrow> pystr \<Rightarrow> pystr list" where
  "ticket_events db k = (case dict_get db k of None \<Rightarrow> [] | Some v \<Rightarrow> map event (history v))"

text \<open>One step of the ticket store, as the handlers can make it.\<close>

definition store_step :: "ticket dict \<Rightarrow> ticket dict \<Rightarrow> bool" where
  "store_step db db' \<longleftrightarrow>
     db' = db
     \<or> (\<exists>k v t e s. dict_get db k = Some v \<and> status_set_by e = Some s
            \<and> db' = dict_set db k (v\<lparr>history := history v @ [\<lparr>ts = t, event = e\<rparr>], status := s\<rparr>))
     \<or> (\<exists>p v. ticket_ok v \<and> db' = dict_set db (p @ lit ''-'' @ fmt_0d 4 (length db + 1)) v)"

definition store_inv :: "world \<Rightarrow> bool" where
  "store_inv w \<longleftrightarrow> ids_ok (stored (tickets_file w)) \<and> all_ok (stored (tickets_file w))"

definition example_closing_trace :: "(update \<times> (nat \<Rightarrow> datetime)) list" where
  "example_closing_trace =
     [(Callback (lit ''menu_warranty''), example_clock),
      (Message (Some (lit ''sn-01'')) None, example_clock),
      (Message (Some (lit ''screen flicker'')) None, example_clock),
      (Callback (lit ''no''), example_clock),
      (Callback (lit ''feedback:T20250309-0001''), example_clock)]"

definition example_reopen :: "(update \<times> (nat \<Rightarrow> datetime)) list" where
  "example_reopen = [(Callback (lit ''repair:T20250309-0001''), example_clock)]"

definition example_closed_ticket :: ticket where
  "example_closed_ticket = \<lparr>created_at = lit ''2025-03-09T14:05:07'', serial = Some (lit ''SN-01''),
     issue = Some (lit ''screen flicker''), remote_ok = False, status = lit ''closed'',
     history = [\<lparr>ts = lit ''2025-03-09T14:05:07'', event = lit ''created''\<rparr>,
                \<lparr>ts = lit ''2025-03-09T14:05:07'', event = lit ''remote_consent:no''\<rparr>,
                \<lparr>ts = lit ''2025-03-09T14:05:07'', event = lit ''feedback''\<rparr>]\<rparr>"

section \<open>Properties\<close>

subsection \<open>Strings and numbers\<close>

lemma lit_eq_iff [simp]: "lit a = lit b \<longleftrightarrow> a = b"
  unfolding lit_def by (simp add: inj_map_eq_map inj_on_def)

lemma lit_append: "lit (a @ b) = lit a @ lit b"
  by (simp add: lit_def)

lemma is_digits_append [simp]: "is_digits (a @ b) \<longleftrightarrow> is_digits a \<and> is_digits b"
  by (simp add: is_digits_def)

lemma is_digits_replicate [simp]: "is_digits (replicate k 48)"
  by (simp add: is_digits_def list_all_iff)

lemma digits_value_snoc [simp]: "digits_value (s @ [c]) = 10 * digits_value s + (c - 48)"
  by (simp add: digits_value_def)

lemma digits_value_Nil [simp]: "digits_value [] = 0"
  by (simp add: digits_value_def)

lemma digits_value_single [simp]: "digits_value [c] = c - 48"
  by (simp add: digits_value_def)

lemma digits_value_zeros: "digits_value (replicate k 48 @ s) = digits_value s"
proof (induction s rule: rev_induct)
  case Nil
  show ?case by (induction k) (simp_all add: digits_value_def)
next
  case (snoc c s)
  have "digits_value (replicate k 48 @ s @ [c]) = digits_value ((replicate k 48 @ s) @ [c])" by simp
  also have "\<dots> = 10 * digits_value (replicate k 48 @ s) + (c - 48)" by (rule digits_value_snoc)
  finally show ?case using snoc by simp
qed

lemma str_nat_digits: "is_digits (str_nat n)"
proof (induction n rule: str_nat.induct)
  case (1 n)
  have "n mod 10 \<le> 9" by arith
  with 1 show ?case by (subst str_nat.simps) (simp add: is_digits_def)
qed

lemma str_nat_value: "digits_value (str_nat n) = n"
  by (induction n rule: str_nat.induct) (subst str_nat.simps, simp)

lemma str_nat_ne: "str_nat n \<noteq> []"
  by (subst str_nat.simps) simp

lemma str_nat_hd: "0 < n \<Longrightarrow> hd (str_nat n) \<noteq> 48"
proof (induction n rule: str_nat.induct)
  case (1 n)
  show ?case
  proof (cases "n < 10")
    case True
    with 1 show ?thesis by (subst str_nat.simps) simp
  next
    case False
    then have "0 < n div 10" by simp
    with 1 False have "hd (str_nat (n div 10)) \<noteq> 48" by simp
    with False show ?thesis by (subst str_nat.simps) (simp add: str_nat_ne)
  qed
qed

lemma str_nat_length_le: "n < 10 ^ k \<Longrightarrow> 0 < k \<Longrightarrow> length (str_nat n) \<le> k"
proof (induction n arbitrary: k rule: str_nat.induct)
  case (1 n)
  show ?case
  proof (cases "n < 10")
    case True
    with 1 show ?thesis by (subst str_nat.simps) simp
  next
    case False
    obtain j where k: "k = Suc j" using 1(3) by (cases k) auto
    have j: "0 < j" using False 1(2) k by (cases j) auto
    have "n div 10 < 10 ^ j" using 1(2) k by (simp add: less_mult_imp_div_less mult.commute)
    with 1(1) False j have "length (str_nat (n div 10)) \<le> j" by simp
    with False k show ?thesis by (subst str_nat.simps) simp
  qed
qed

lemma fmt_0d_padded: "0 < n \<Longrightarrow> zero_padded w n (fmt_0d w n)"
  unfolding zero_padded_def fmt_0d_def
  by (auto simp: str_nat_digits digits_value_zeros str_nat_value str_nat_hd)

lemma fmt_0d_length: "n < 10 ^ k \<Longrightarrow> 0 < k \<Longrightarrow> length (fmt_0d k n) = k"
  using str_nat_length_le [of n k] by (simp add: fmt_0d_def)

lemma fmt_0d_digits: "is_digits (fmt_0d k n)"
  by (simp add: fmt_0d_def str_nat_digits)

lemma fmt_0d_value: "digits_value (fmt_0d k n) = n"
  by (simp add: fmt_0d_def digits_value_zeros str_nat_value)

lemma strftime_Ymd_ok: "valid_date d \<Longrightarrow> is_YYYYMMDD d (strftime_Ymd d)"
proof -
  assume v: "valid_date d"
  have l4: "length (fmt_0d 4 (year d)) = 4" using v by (intro fmt_0d_length) (simp_all add: valid_date_def)
  have l2: "length (fmt_0d 2 (month d)) = 2" using v by (intro fmt_0d_length) (simp_all add: valid_date_def)
  have l2': "length (fmt_0d 2 (day d)) = 2" using v by (intro fmt_0d_length) (simp_all add: valid_date_def)
  show ?thesis
    unfolding is_YYYYMMDD_def strftime_Ymd_def
    using l4 l2 l2' by (simp add: fmt_0d_digits fmt_0d_value)
qed

lemma re_match_One:
  "re_match (One a # ps) s \<longleftrightarrow> (\<exists>c v. s = c # v \<and> atom_ok a c \<and> re_match ps v)"
  by (cases s) auto

lemma re_match_Many:
  "re_match (Many a # ps) s \<longleftrightarrow>
     (\<exists>u v. s = u @ v \<and> u \<noteq> [] \<and> list_all (atom_ok a) u \<and> re_match ps v)"
proof (induction s)
  case Nil
  show ?case by simp
next
  case (Cons c s)
  show ?case
  proof
    assume "re_match (Many a # ps) (c # s)"
    then have c: "atom_ok a c" and d: "re_match (Many a # ps) s \<or> re_match ps s" by auto
    from d show "\<exists>u v. c # s = u @ v \<and> u \<noteq> [] \<and> list_all (atom_ok a) u \<and> re_match ps v"
    proof
      assume "re_match (Many a # ps) s"
      with Cons obtain u v where "s = u @ v" "list_all (atom_ok a) u" "re_match ps v" by auto
      with c have "c # s = (c # u) @ v \<and> c # u \<noteq> [] \<and> list_all (atom_ok a) (c # u) \<and> re_match ps v"
        by simp
      then show ?thesis by blast
    next
      assume "re_match ps s"
      with c have "c # s = [c] @ s \<and> [c] \<noteq> [] \<and> list_all (atom_ok a) [c] \<and> re_match ps s"
        by simp
      then show ?thesis by blast
    qed
  next
    assume "\<exists>u v. c # s = u @ v \<and> u \<noteq> [] \<and> list_all (atom_ok a) u \<and> re_match ps v"
    then obtain u v where uv: "c # s = u @ v" "u \<noteq> []" "list_all (atom_ok a) u" "re_match ps v"
      by blast
    then obtain u' where u: "u = c # u'" by (cases u) auto
    with uv have s: "s = u' @ v" and c: "atom_ok a c" and r: "list_all (atom_ok a) u'" by auto
    show "re_match (Many a # ps) (c # s)"
    proof (cases "u' = []")
      case True
      with s uv(4) c show ?thesis by simp
    next
      case False
      with s r uv(4) have "re_match (Many a # ps) s" using Cons by blast
      with c show ?thesis by simp
    qed
  qed
qed

lemma all_neg: "list_all (atom_ok (Neg a)) u \<longleftrightarrow> a \<notin> set u"
  by (induction u) auto

lemma email_pattern_shape: "re_match email_pattern s \<longleftrightarrow> email_shaped s"
proof
  assume "re_match email_pattern s"
  then obtain l r1 where 1: "s = l @ r1" "l \<noteq> []" "64 \<notin> set l"
      "re_match [One (Lit 64), Many (Neg 64), One (Lit 46), Many (Neg 64)] r1"
    unfolding email_pattern_def re_match_Many [of "Neg 64" "[One (Lit 64), Many (Neg 64), One (Lit 46), Many (Neg 64)]"] all_neg
    by blast
  from 1(4) obtain r2 where 2: "r1 = 64 # r2" "re_match [Many (Neg 64), One (Lit 46), Many (Neg 64)] r2"
    unfolding re_match_One by auto
  from 2(2) obtain d r3 where 3: "r2 = d @ r3" "d \<noteq> []" "64 \<notin> set d" "re_match [One (Lit 46), Many (Neg 64)] r3"
    unfolding re_match_Many [of "Neg 64" "[One (Lit 46), Many (Neg 64)]"] all_neg by blast
  from 3(4) obtain r4 where 4: "r3 = 46 # r4" "re_match [Many (Neg 64)] r4"
    unfolding re_match_One by auto
  from 4(2) obtain t r5 where 5: "r4 = t @ r5" "t \<noteq> []" "64 \<notin> set t"
    unfolding re_match_Many [of "Neg 64" "[]"] all_neg by blast
  have "s = l @ [64] @ d @ [46] @ t @ r5" using 1 2 3 4 5 by simp
  with 1 3 5 show "email_shaped s" unfolding email_shaped_def by blast
next
  assume "email_shaped s"
  then obtain l d t r where s: "s = l @ [64] @ d @ [46] @ t @ r"
    and n: "l \<noteq> []" "64 \<notin> set l" "d \<noteq> []" "64 \<notin> set d" "t \<noteq> []" "64 \<notin> set t"
    unfolding email_shaped_def by blast
  have 5: "re_match [Many (Neg 64)] (t @ r)"
    unfolding re_match_Many [of "Neg 64" "[]"] all_neg using n by auto
  then have 4: "re_match [One (Lit 46), Many (Neg 64)] ([46] @ t @ r)" by simp
  have 3: "re_match [Many (Neg 64), One (Lit 46), Many (Neg 64)] (d @ [46] @ t @ r)"
    unfolding re_match_Many [of "Neg 64" "[One (Lit 46), Many (Neg 64)]"] all_neg using n 4 by blast
  then have 2: "re_match [One (Lit 64), Many (Neg 64), One (Lit 46), Many (Neg 64)] ([64] @ d @ [46] @ t @ r)"
    by simp
  show "re_match email_pattern s"
    unfolding email_pattern_def s
      re_match_Many [of "Neg 64" "[One (Lit 64), Many (Neg 64), One (Lit 46), Many (Neg 64)]"] all_neg
    using n 2 by blast
qed

subsection \<open>The record store\<close>

lemma load_save: "load (save m) = Inr m"
  by (simp add: save_def)

lemma load_tolerant: "load Absent = Inr [] \<and> load Malformed = Inr []"
  by simp

text \<open>
  C7. Saving a collection and loading it gives the collection back, and a missing file
  or a file that is not JSON loads as the empty collection; but a file whose bytes are
  not valid UTF-8 cannot be parsed either, and loading it raises \<open>UnicodeDecodeError\<close>
  instead of giving the empty collection.
\<close>

theorem load_undecodable_raises:
  "load (Undecodable :: ticket json_file) = Inl UnicodeDecodeError
   \<and> load (Undecodable :: order json_file) = Inl UnicodeDecodeError
   \<and> load (Undecodable :: ticket json_file) \<noteq> Inr []"
  by simp

subsection \<open>Identifiers\<close>

text \<open>
  C6. For a collection of \<open>n\<close> records and a clock date, the identifier is the prefix
  (\<open>T\<close> for tickets, \<open>O\<close> for orders), the date as \<open>YYYYMMDD\<close>, a hyphen, and \<open>n + 1\<close>
  zero-padded to four digits; for an empty collection it ends in \<open>-0001\<close>.
\<close>

theorem next_id_format:
  assumes "valid_date now" and "load tf = Inr tdb" and "load orf = Inr odb"
  shows "(\<exists>ymd num. next_ticket_id now tf = Inr (lit ''T'' @ ymd @ lit ''-'' @ num)
           \<and> is_YYYYMMDD now ymd \<and> zero_padded 4 (length tdb + 1) num)
    \<and> (\<exists>ymd num. next_order_id now orf = Inr (lit ''O'' @ ymd @ lit ''-'' @ num)
           \<and> is_YYYYMMDD now ymd \<and> zero_padded 4 (length odb + 1) num)
    \<and> (tdb = [] \<longrightarrow> (\<exists>p. next_ticket_id now tf = Inr (p @ lit ''-0001'')))
    \<and> (odb = [] \<longrightarrow> (\<exists>p. next_order_id now orf = Inr (p @ lit ''-0001'')))"
proof -
  have one: "fmt_0d 4 (Suc 0) = lit ''0001''"
    by code_simp
  have t: "next_ticket_id now tf
             = Inr (lit ''T'' @ strftime_Ymd now @ lit ''-'' @ fmt_0d 4 (length tdb + 1))"
    using assms(2) by (simp add: next_ticket_id_def)
  have o: "next_order_id now orf
             = Inr (lit ''O'' @ strftime_Ymd now @ lit ''-'' @ fmt_0d 4 (length odb + 1))"
    using assms(3) by (simp add: next_order_id_def)
  have y: "is_YYYYMMDD now (strftime_Ymd now)"
    using assms(1) by (rule strftime_Ymd_ok)
  have pt: "zero_padded 4 (length tdb + 1) (fmt_0d 4 (length tdb + 1))"
    by (rule fmt_0d_padded) simp
  have po: "zero_padded 4 (length odb + 1) (fmt_0d 4 (length odb + 1))"
    by (rule fmt_0d_padded) simp
  have a: "\<exists>ymd num. next_ticket_id now tf = Inr (lit ''T'' @ ymd @ lit ''-'' @ num)
           \<and> is_YYYYMMDD now ymd \<and> zero_padded 4 (length tdb + 1) num"
    using t y pt by blast
  have b: "\<exists>ymd num. next_order_id now orf = Inr (lit ''O'' @ ymd @ lit ''-'' @ num)
           \<and> is_YYYYMMDD now ymd \<and> zero_padded 4 (length odb + 1) num"
    using o y po by blast
  have c: "tdb = [] \<longrightarrow> (\<exists>p. next_ticket_id now tf = Inr (p @ lit ''-0001''))"
  proof
    assume "tdb = []"
    with t one have "next_ticket_id now tf = Inr ((lit ''T'' @ strftime_Ymd now) @ lit ''-0001'')"
      by (simp add: lit_def)
    then show "\<exists>p. next_ticket_id now tf = Inr (p @ lit ''-0001'')" by blast
  qed
  have d: "odb = [] \<longrightarrow> (\<exists>p. next_order_id now orf = Inr (p @ lit ''-0001''))"
  proof
    assume "odb = []"
    with o one have "next_order_id now orf = Inr ((lit ''O'' @ strftime_Ymd now) @ lit ''-0001'')"
      by (simp add: lit_def)
    then show "\<exists>p. next_order_id now orf = Inr (p @ lit ''-0001'')" by blast
  qed
  from a b c d show ?thesis by blast
qed

theorem next_id_format_witness:
  "valid_date example_now
   \<and> load (Absent :: ticket json_file) = Inr []
   \<and> load (Absent :: order json_file) = Inr []
   \<and> next_ticket_id example_now Absent = Inr (lit ''T20250309-0001'')
   \<and> next_order_id example_now Absent = Inr (lit ''O20250309-0001'')
   \<and> (\<exists>ymd num. next_ticket_id example_now Absent = Inr (lit ''T'' @ ymd @ lit ''-'' @ num)
         \<and> is_YYYYMMDD example_now ymd \<and> zero_padded 4 1 num)
   \<and> (\<exists>p. next_order_id example_now Absent = Inr (p @ lit ''-0001''))"
proof -
  have v: "valid_date example_now"
    by (simp add: valid_date_def example_now_def)
  have lt: "load (Absent :: ticket json_file) = Inr []" by simp
  have lo: "load (Absent :: order json_file) = Inr []" by simp
  have t: "next_ticket_id example_now Absent = Inr (lit ''T20250309-0001'')" by code_simp
  have o: "next_order_id example_now Absent = Inr (lit ''O20250309-0001'')" by code_simp
  from next_id_format [OF v lt lo] v lt lo t o show ?thesis by simp
qed

subsection \<open>The email step\<close>

text \<open>
  C4. In the step \<open>taking_email\<close>, a text whose trimmed form has no prefix of the shape
  \<open>local@domain.tld\<close> is answered with the retry prompt and the world stays as it was (no
  state change, no field stored); a text that has one is stored under \<open>email\<close> and the
  state becomes \<open>taking_phone\<close>. \<open>not-an-email\<close> is rejected, \<open>a@b.co\<close> is accepted.
\<close>

theorem taking_email_guard:
  assumes "state (session w) = Some BuyForm_taking_email" and "cmd \<noteq> Some Start"
  shows "(\<not> email_shaped (strip t) \<longrightarrow>
            dispatch upper (Message (Some t) cmd) now w = Returned w [Answer EmailRetry []])
    \<and> (email_shaped (strip t) \<longrightarrow>
          (\<exists>w'. dispatch upper (Message (Some t) cmd) now w = Returned w' [Answer AskPhone []]
             \<and> state (session w') = Some BuyForm_taking_phone
             \<and> data (session w') = (data (session w))(lit ''email'' \<mapsto> strip t)
             \<and> orders_file w' = orders_file w \<and> tickets_file w' = tickets_file w))
    \<and> dispatch upper (Message (Some (lit ''not-an-email'')) cmd) now w
          = Returned w [Answer EmailRetry []]
    \<and> (\<exists>w'. dispatch upper (Message (Some (lit ''a@b.co'')) cmd) now w
                = Returned w' [Answer AskPhone []]
           \<and> state (session w') = Some BuyForm_taking_phone)"
proof -
  have d: "dispatch upper (Message (Some x) cmd) now w = buy_email (Some x) w" for x
    using assms by (simp add: dispatch_message_def)
  have bad: "\<not> re_match email_pattern (strip (lit ''not-an-email''))" by code_simp
  have good: "re_match email_pattern (strip (lit ''a@b.co''))" by code_simp
  have r: "\<not> re_match email_pattern (strip x) \<Longrightarrow> buy_email (Some x) w = Returned w [Answer EmailRetry []]" for x
    by (simp add: buy_email_def)
  have a: "re_match email_pattern (strip x) \<Longrightarrow>
      \<exists>w'. buy_email (Some x) w = Returned w' [Answer AskPhone []]
         \<and> state (session w') = Some BuyForm_taking_phone
         \<and> data (session w') = (data (session w))(lit ''email'' \<mapsto> strip x)
         \<and> orders_file w' = orders_file w \<and> tickets_file w' = tickets_file w" for x
    by (simp add: buy_email_def set_state_def update_data_def)
  show ?thesis
    using r [of t] a [of t] r [OF bad] a [OF good] unfolding d email_pattern_shape by blast
qed

theorem taking_email_guard_witness:
  "state (session (set_state BuyForm_taking_email example_world)) = Some BuyForm_taking_email
   \<and> (None :: command option) \<noteq> Some Start
   \<and> \<not> email_shaped (strip (lit ''not-an-email''))
   \<and> email_shaped (strip (lit '' a@b.co ''))
   \<and> dispatch (\<lambda>s. s) (Message (Some (lit ''not-an-email'')) None) (\<lambda>i. example_now)
         (set_state BuyForm_taking_email example_world)
       = Returned (set_state BuyForm_taking_email example_world) [Answer EmailRetry []]
   \<and> (\<exists>w'. dispatch (\<lambda>s. s) (Message (Some (lit '' a@b.co '')) None) (\<lambda>i. example_now)
               (set_state BuyForm_taking_email example_world)
             = Returned w' [Answer AskPhone []]
          \<and> state (session w') = Some BuyForm_taking_phone
          \<and> data (session w') = (data (session (set_state BuyForm_taking_email example_world)))
                                   (lit ''email'' \<mapsto> strip (lit '' a@b.co '')))"
proof -
  have s: "state (session (set_state BuyForm_taking_email example_world)) = Some BuyForm_taking_email"
    by (simp add: set_state_def)
  have c: "(None :: command option) \<noteq> Some Start" by simp
  have bad: "\<not> email_shaped (strip (lit ''not-an-email''))"
    unfolding email_pattern_shape [symmetric] by code_simp
  have good: "email_shaped (strip (lit '' a@b.co ''))"
    unfolding email_pattern_shape [symmetric] by code_simp
  from taking_email_guard [OF s c, of "lit ''not-an-email''" "\<lambda>s. s" "\<lambda>i. example_now"]
       taking_email_guard [OF s c, of "lit '' a@b.co ''" "\<lambda>s. s" "\<lambda>i. example_now"]
       s c bad good
  show ?thesis by blast
qed

subsection \<open>Stage actions\<close>

lemma stage_actions_iff:
  "action \<in> set stage_actions \<longleftrightarrow>
     action = lit ''tl_wait'' \<or> action = lit ''asc_redirect'' \<or> action = lit ''asc_control''
     \<or> action = lit ''repair'' \<or> action = lit ''handover'' \<or> action = lit ''feedback''"
  by (simp add: stage_actions_def)

lemma stage_action_no_colon: "action \<in> set stage_actions \<Longrightarrow> 58 \<notin> set action"
  unfolding stage_actions_iff by (elim disjE) (simp_all add: lit_def)

lemma stage_action_mapping: "action \<in> set stage_actions \<Longrightarrow> map_of mapping action = Some (spec_status action)"
  unfolding stage_actions_iff by (elim disjE) (simp_all add: mapping_def spec_status_def)

lemma stage_action_prefix: "action \<in> set stage_actions \<Longrightarrow> startswith (action @ r) action"
  by (simp add: startswith_def)

lemma stage_action_hd: "action \<in> set stage_actions \<Longrightarrow> hd action \<noteq> 109 \<and> hd action \<noteq> 100 \<and> hd action \<noteq> 121 \<and> hd action \<noteq> 110 \<and> action \<noteq> []"
  unfolding stage_actions_iff by (elim disjE) (simp_all add: lit_def)

lemma dict_get_set_same: "dict_get (dict_set db k v) k = Some v"
  by (induction db) (auto simp: dict_get_def)

lemma dict_get_set_other: "k' \<noteq> k \<Longrightarrow> dict_get (dict_set db k v) k' = dict_get db k'"
  by (induction db) (auto simp: dict_get_def)

lemma dict_set_keys: "dict_get db k = Some v0 \<Longrightarrow> map fst (dict_set db k v) = map fst db"
  by (induction db) (auto simp: dict_get_def)

lemma dict_set_fresh: "dict_get db k = None \<Longrightarrow> dict_set db k v = db @ [(k, v)]"
  by (induction db) (auto simp: dict_get_def)

lemma partition_at_sep: "sep \<notin> set a \<Longrightarrow> partition_at sep (a @ sep # r) = (a, r)"
  by (simp add: partition_at_def takeWhile_append dropWhile_append)

lemma startswith_hd: "startswith c p \<Longrightarrow> p \<noteq> [] \<Longrightarrow> hd c = hd p"
  unfolding startswith_def by (cases p; cases c) auto

lemma dispatch_stage_action:
  assumes "action \<in> set stage_actions"
  shows "dispatch upper (Callback (action @ lit '':'' @ tid)) now w
           = w_progress (action @ lit '':'' @ tid) now w"
proof -
  let ?c = "action @ lit '':'' @ tid"
  from stage_action_hd [OF assms] have h: "hd ?c \<noteq> 109" "hd ?c \<noteq> 100" "hd ?c \<noteq> 121" "hd ?c \<noteq> 110"
    by simp_all
  have n1: "?c \<noteq> lit ''menu_home''" "?c \<noteq> lit ''menu_presentation''" "?c \<noteq> lit ''menu_contacts''"
    "?c \<noteq> lit ''menu_buy''" "?c \<noteq> lit ''menu_warranty''"
    using h(1) by (auto simp: lit_def)
  have n2: "?c \<noteq> lit ''yes''" "?c \<noteq> lit ''no''"
    using h(3,4) by (auto simp: lit_def)
  have n3: "\<not> startswith ?c (lit ''del_'')"
    using h(2) startswith_hd [of ?c "lit ''del_''"] by (auto simp: lit_def)
  have y: "startswith_any ?c stage_actions"
    unfolding startswith_any_def list_ex_iff using assms stage_action_prefix [OF assms] by blast
  show ?thesis
    using n1 n2 n3 y by (simp add: dispatch_callback_def)
qed

text \<open>
  C1. Each of the six stage actions, sent as \<open>action:ticket_id\<close> in any session state and
  for any loadable ticket store: when the ticket exists, the store is rewritten with that
  ticket's history extended by exactly one event named after the action and its status
  replaced by the mapped value (\<open>feedback\<close> gives \<open>closed\<close>, the others their own name),
  whatever the status was, every other ticket and the key order untouched; when it does
  not exist, the world is returned unchanged with the not-found alert.
\<close>

theorem stage_action_effect:
  assumes "action \<in> set stage_actions" and "load (tickets_file w) = Inr db"
  shows "(\<forall>v. dict_get db tid = Some v \<longrightarrow>
            (\<exists>db'. dispatch upper (Callback (action @ lit '':'' @ tid)) now w
                     = Returned (w\<lparr>tickets_file := Document db'\<rparr>)
                         [Answer (Progress tid action) [], CallbackAnswer]
               \<and> dict_get db' tid
                    = Some (v\<lparr>history := history v @ [\<lparr>ts = isoformat (now 0), event = action\<rparr>],
                              status := spec_status action\<rparr>)
               \<and> (\<forall>k. k \<noteq> tid \<longrightarrow> dict_get db' k = dict_get db k)
               \<and> map fst db' = map fst db))
     \<and> (dict_get db tid = None \<longrightarrow>
            dispatch upper (Callback (action @ lit '':'' @ tid)) now w
              = Returned w [TicketNotFoundAlert])"
proof -
  let ?c = "action @ lit '':'' @ tid"
  have p: "partition_at 58 ?c = (action, tid)"
    using stage_action_no_colon [OF assms(1)] partition_at_sep [of 58 action tid] by (simp add: lit_def)
  have d: "dispatch upper (Callback ?c) now w = w_progress ?c now w"
    using assms(1) by (rule dispatch_stage_action)
  have none: "dict_get db tid = None \<longrightarrow> w_progress ?c now w = Returned w [TicketNotFoundAlert]"
    using assms(2) p by (simp add: w_progress_def)
  have some: "\<exists>db'. w_progress ?c now w
                     = Returned (w\<lparr>tickets_file := Document db'\<rparr>)
                         [Answer (Progress tid action) [], CallbackAnswer]
               \<and> dict_get db' tid
                    = Some (v\<lparr>history := history v @ [\<lparr>ts = isoformat (now 0), event = action\<rparr>],
                              status := spec_status action\<rparr>)
               \<and> (\<forall>k. k \<noteq> tid \<longrightarrow> dict_get db' k = dict_get db k)
               \<and> map fst db' = map fst db" if v: "dict_get db tid = Some v" for v
  proof -
    let ?v' = "v\<lparr>history := history v @ [\<lparr>ts = isoformat (now 0), event = action\<rparr>],
                  status := spec_status action\<rparr>"
    have "w_progress ?c now w
        = Returned (w\<lparr>tickets_file := Document (dict_set db tid ?v')\<rparr>)
            [Answer (Progress tid action) [], CallbackAnswer]"
      using assms(2) p v stage_action_mapping [OF assms(1)] by (simp add: w_progress_def advance_ticket_def save_def)
    moreover have "dict_get (dict_set db tid ?v') tid = Some ?v'" by (rule dict_get_set_same)
    moreover have "\<forall>k. k \<noteq> tid \<longrightarrow> dict_get (dict_set db tid ?v') k = dict_get db k"
      by (simp add: dict_get_set_other)
    moreover have "map fst (dict_set db tid ?v') = map fst db" using v by (rule dict_set_keys)
    ultimately show ?thesis by blast
  qed
  show ?thesis unfolding d using none some by blast
qed

theorem stage_action_effect_witness:
  "lit ''feedback'' \<in> set stage_actions
   \<and> load (tickets_file example_store) = Inr [(lit ''T20250301-0001'', example_ticket)]
   \<and> dict_get [(lit ''T20250301-0001'', example_ticket)] (lit ''T20250301-0001'') = Some example_ticket
   \<and> dict_get [(lit ''T20250301-0001'', example_ticket)] (lit ''T20250301-0002'') = None
   \<and> status example_ticket = lit ''closed''
   \<and> (\<exists>db'. dispatch (\<lambda>s. s) (Callback (lit ''feedback'' @ lit '':'' @ lit ''T20250301-0001''))
                 example_clock example_store
               = Returned (example_store\<lparr>tickets_file := Document db'\<rparr>)
                   [Answer (Progress (lit ''T20250301-0001'') (lit ''feedback'')) [], CallbackAnswer]
          \<and> dict_get db' (lit ''T20250301-0001'')
               = Some (example_ticket\<lparr>history := history example_ticket
                           @ [\<lparr>ts = isoformat (example_clock 0), event = lit ''feedback''\<rparr>],
                         status := lit ''closed''\<rparr>))
   \<and> dispatch (\<lambda>s. s) (Callback (lit ''feedback'' @ lit '':'' @ lit ''T20250301-0002''))
         example_clock example_store
       = Returned example_store [TicketNotFoundAlert]"
proof -
  have a: "lit ''feedback'' \<in> set stage_actions" by (simp add: stage_actions_def)
  have l: "load (tickets_file example_store) = Inr [(lit ''T20250301-0001'', example_ticket)]"
    by (simp add: example_store_def)
  have g1: "dict_get [(lit ''T20250301-0001'', example_ticket)] (lit ''T20250301-0001'') = Some example_ticket"
    by (simp add: dict_get_def)
  have g2: "dict_get [(lit ''T20250301-0001'', example_ticket)] (lit ''T20250301-0002'') = None"
    by (simp add: dict_get_def)
  have s: "status example_ticket = lit ''closed''" by (simp add: example_ticket_def)
  have m: "spec_status (lit ''feedback'') = lit ''closed''" by (simp add: spec_status_def)
  from stage_action_effect [OF a l, of "lit ''T20250301-0001''" "\<lambda>s. s" example_clock]
       stage_action_effect [OF a l, of "lit ''T20250301-0002''" "\<lambda>s. s" example_clock]
       a l g1 g2 s m
  show ?thesis by auto
qed

subsection \<open>Ticket creation\<close>

lemma dispatch_consent:
  assumes "state (session w) = Some WarrantyForm_ask_remote"
    and "c = lit ''yes'' \<or> c = lit ''no''"
  shows "dispatch upper (Callback c) now w = w_remote c now w"
    using assms by (auto simp: dispatch_callback_def startswith_def)

lemma w_remote_result:
  assumes i: "next_ticket_id (now 0) (tickets_file w) = Inr ticket_id"
    and l: "load (tickets_file w) = Inr db"
  shows "w_remote c now w =
      (if c = lit ''yes''
       then Returned (set_state WarrantyForm_schedule_remote (w\<lparr>tickets_file := Document (dict_set db ticket_id (new_ticket c now (get_data w)))\<rparr>))
              [Answer (TicketCreatedSchedule ticket_id) [], CallbackAnswer]
       else Returned (set_state WarrantyForm_tl_wait (w\<lparr>tickets_file := Document (dict_set db ticket_id (new_ticket c now (get_data w)))\<rparr>))
              [Answer (TicketCreatedLead ticket_id) (warranty_progress_kb ticket_id),
               CallbackAnswer])"
  by (simp add: w_remote_def Let_def i l save_def)

lemma w_remote_world:
  assumes i: "next_ticket_id (now 0) (tickets_file w) = Inr ticket_id"
    and l: "load (tickets_file w) = Inr db"
  shows "\<exists>rs. w_remote c now w
           = Returned (set_state (if c = lit ''yes'' then WarrantyForm_schedule_remote
                                  else WarrantyForm_tl_wait)
                         (w\<lparr>tickets_file := Document (dict_set db ticket_id
                                                   (new_ticket c now (get_data w)))\<rparr>)) rs"
  unfolding w_remote_result [where now = now, OF i l] by simp

text \<open>
  C3. Answering the consent question (callback \<open>yes\<close> or \<open>no\<close> in the state \<open>ask_remote\<close>)
  stores, under the next ticket identifier, a ticket with \<open>remote_ok\<close> true exactly for \<open>yes\<close>,
  status \<open>remote_scheduled\<close> for \<open>yes\<close> and \<open>tl_wait\<close> for \<open>no\<close>, and the two history events
  \<open>created\<close> and \<open>remote_consent:<answer>\<close> in this order; the other tickets stay.
\<close>

theorem ticket_creation:
  assumes "state (session w) = Some WarrantyForm_ask_remote"
    and "c = lit ''yes'' \<or> c = lit ''no''"
    and "load (tickets_file w) = Inr db"
  shows "\<exists>ticket_id w' rs db' t.
           next_ticket_id (now 0) (tickets_file w) = Inr ticket_id
         \<and> dispatch upper (Callback c) now w = Returned w' rs
         \<and> load (tickets_file w') = Inr db'
         \<and> dict_get db' ticket_id = Some t
         \<and> remote_ok t = (c = lit ''yes'')
         \<and> status t = (if c = lit ''yes'' then lit ''remote_scheduled'' else lit ''tl_wait'')
         \<and> map event (history t) = [lit ''created'', lit ''remote_consent:'' @ c]
         \<and> serial t = data (session w) (lit ''serial'')
         \<and> issue t = data (session w) (lit ''issue'')
         \<and> state (session w') = Some (if c = lit ''yes'' then WarrantyForm_schedule_remote
                                       else WarrantyForm_tl_wait)
         \<and> (\<forall>k. k \<noteq> ticket_id \<longrightarrow> dict_get db' k = dict_get db k)"
proof -
  obtain ticket_id where i: "next_ticket_id (now 0) (tickets_file w) = Inr ticket_id"
    using assms(3) by (simp add: next_ticket_id_def)
  define t where "t = new_ticket c now (get_data w)"
  define db' where "db' = dict_set db ticket_id t"
  define w' where "w' = set_state (if c = lit ''yes'' then WarrantyForm_schedule_remote
                                  else WarrantyForm_tl_wait) (w\<lparr>tickets_file := Document db'\<rparr>)"
  obtain rs where r: "w_remote c now w = Returned w' rs"
    using w_remote_world [where now = now and c = c, OF i assms(3)] unfolding w'_def db'_def t_def by blast
  have d: "dispatch upper (Callback c) now w = Returned w' rs"
    using dispatch_consent [OF assms(1,2)] r by simp
  have l: "load (tickets_file w') = Inr db'"
    by (simp add: w'_def set_state_def)
  have s: "state (session w') = Some (if c = lit ''yes'' then WarrantyForm_schedule_remote
                                       else WarrantyForm_tl_wait)"
    by (simp add: w'_def set_state_def)
  have g: "dict_get db' ticket_id = Some t"
    unfolding db'_def by (rule dict_get_set_same)
  have o: "\<forall>k. k \<noteq> ticket_id \<longrightarrow> dict_get db' k = dict_get db k"
    unfolding db'_def by (simp add: dict_get_set_other)
  have t1: "remote_ok t = (c = lit ''yes'')" by (simp add: t_def new_ticket_def)
  have t2: "status t = (if c = lit ''yes'' then lit ''remote_scheduled'' else lit ''tl_wait'')"
    by (simp add: t_def new_ticket_def)
  have t3: "map event (history t) = [lit ''created'', lit ''remote_consent:'' @ c]"
    by (simp add: t_def new_ticket_def)
  have t4: "serial t = data (session w) (lit ''serial'')" by (simp add: t_def new_ticket_def get_data_def)
  have t5: "issue t = data (session w) (lit ''issue'')" by (simp add: t_def new_ticket_def get_data_def)
  show ?thesis
    apply (rule exI [of _ ticket_id])
    apply (rule exI [of _ w'])
    apply (rule exI [of _ rs])
    apply (rule exI [of _ db'])
    apply (rule exI [of _ t])
    using i d l s g o t1 t2 t3 t4 t5 apply (intro conjI)
              apply assumption+
    done
qed

theorem ticket_creation_witness:
  "state (session example_ask_remote) = Some WarrantyForm_ask_remote
   \<and> (lit ''no'' = lit ''yes'' \<or> lit ''no'' = lit ''no'')
   \<and> load (tickets_file example_ask_remote) = Inr []
   \<and> (\<exists>ticket_id w' rs db' t.
           next_ticket_id (example_clock 0) (tickets_file example_ask_remote) = Inr ticket_id
         \<and> dispatch (\<lambda>s. s) (Callback (lit ''no'')) example_clock example_ask_remote = Returned w' rs
         \<and> load (tickets_file w') = Inr db'
         \<and> dict_get db' ticket_id = Some t
         \<and> \<not> remote_ok t
         \<and> status t = lit ''tl_wait''
         \<and> map event (history t) = [lit ''created'', lit ''remote_consent:no'']
         \<and> state (session w') = Some WarrantyForm_tl_wait)"
proof -
  have s: "state (session example_ask_remote) = Some WarrantyForm_ask_remote"
    by (simp add: example_ask_remote_def)
  have c: "lit ''no'' = lit ''yes'' \<or> lit ''no'' = lit ''no''" by simp
  have l: "load (tickets_file example_ask_remote) = Inr []"
    by (simp add: example_ask_remote_def)
  have n: "lit ''no'' \<noteq> lit ''yes''" by simp
  have e: "lit ''remote_consent:'' @ lit ''no'' = lit ''remote_consent:no''" by (simp add: lit_def)
  from ticket_creation [where now = example_clock and upper = "\<lambda>s. s", OF s c l]
  show ?thesis unfolding e using s l n by auto
qed

subsection \<open>Scheduling the remote session\<close>

lemma find_ticket_find:
  assumes "d (lit ''serial'') = Some s" and "d (lit ''issue'') = Some i"
  shows "find_ticket d xs = Inr (map_option fst (find (matches s i) xs))"
  using assms by (induction xs) (auto simp: matches_def)

lemma set_sorted_created_desc [simp]: "set (sorted_created_desc db) = set db"
  by (simp add: sorted_created_desc_def)

lemma sorted_created_desc_sorted:
  "sorted (rev (map (\<lambda>x. created_at (snd x)) (sorted_created_desc db)))"
  by (simp add: sorted_created_desc_def rev_map)

lemma find_first_is_max:
  "sorted (rev (map f xs)) \<Longrightarrow> find P xs = Some x \<Longrightarrow>
     P x \<and> x \<in> set xs \<and> (\<forall>y \<in> set xs. P y \<longrightarrow> f y \<le> f x)"
proof (induction xs)
  case Nil
  then show ?case by simp
next
  case (Cons a xs)
  from Cons.prems(1) have s: "sorted (rev (map f xs))" and le: "\<forall>y \<in> set xs. f y \<le> f a"
    by (auto simp: sorted_append)
  show ?case
  proof (cases "P a")
    case True
    with Cons.prems(2) have "x = a" by simp
    with True le show ?thesis by auto
  next
    case False
    with Cons.prems(2) have "find P xs = Some x" by simp
    from Cons.IH [OF s this] False show ?thesis by auto
  qed
qed

lemma find_None_iff_no_match: "find P xs = None \<longleftrightarrow> (\<forall>x \<in> set xs. \<not> P x)"
  by (induction xs) auto

lemma dispatch_schedule:
  assumes "state (session w) = Some WarrantyForm_schedule_remote" and "cmd \<noteq> Some Start"
  shows "dispatch upper (Message m cmd) now w = w_schedule_remote m now w"
  using assms by (simp add: dispatch_message_def)

lemma schedule_data:
  "get_data (update_data (lit ''schedule'') x w) (lit ''serial'') = data (session w) (lit ''serial'')"
  "get_data (update_data (lit ''schedule'') x w) (lit ''issue'') = data (session w) (lit ''issue'')"
  "tickets_file (update_data k x w) = tickets_file w"
  "orders_file (update_data k x w) = orders_file w"
  by (simp_all add: get_data_def update_data_def)

lemma w_schedule_remote_none:
  assumes "load (tickets_file w) = Inr db"
    and "data (session w) (lit ''serial'') = Some s"
    and "data (session w) (lit ''issue'') = Some i"
    and "find (matches s i) (sorted_created_desc db) = None"
  shows "w_schedule_remote (Some t) now w
           = Returned (set_state WarrantyForm_tl_wait (update_data (lit ''schedule'') (strip t) w))
               [Answer EngineerSlot (warranty_progress_kb (lit ''unknown''))]"
proof -
  let ?w1 = "update_data (lit ''schedule'') (strip t) w"
  have f: "find_ticket (get_data ?w1) (sorted_created_desc db) = Inr None"
    using find_ticket_find [of "get_data ?w1" s i "sorted_created_desc db"] assms(2,3,4)
    by (simp add: schedule_data)
  show ?thesis
    by (simp add: w_schedule_remote_def Let_def schedule_data assms(1) f)
qed

lemma w_schedule_remote_some:
  assumes "load (tickets_file w) = Inr db"
    and "data (session w) (lit ''serial'') = Some s"
    and "data (session w) (lit ''issue'') = Some i"
    and "find (matches s i) (sorted_created_desc db) = Some (k, v0)"
    and "k \<noteq> []" and "dict_get db k = Some v"
  shows "w_schedule_remote (Some t) now w
           = Returned (set_state WarrantyForm_tl_wait
                (update_data (lit ''schedule'') (strip t) w
                   \<lparr>tickets_file := Document (dict_set db k
                       (schedule_ticket (isoformat (now 0)) (strip t) v))\<rparr>))
               [Answer EngineerSlot (warranty_progress_kb k)]"
proof -
  let ?w1 = "update_data (lit ''schedule'') (strip t) w"
  have f: "find_ticket (get_data ?w1) (sorted_created_desc db) = Inr (Some k)"
    using find_ticket_find [of "get_data ?w1" s i "sorted_created_desc db"] assms(2,3,4)
    by (simp add: schedule_data)
  show ?thesis
    by (simp add: w_schedule_remote_def Let_def schedule_data assms(1,5,6) f save_def)
qed

text \<open>
  C10. A message in the state \<open>schedule_remote\<close> when no ticket of the store matches the
  session's serial and issue: the ticket store (and the order store) are left as they
  were, the state becomes \<open>tl_wait\<close>, and the reply carries the stage keyboard built
  for the identifier \<open>unknown\<close>.
\<close>

theorem schedule_without_ticket:
  assumes "state (session w) = Some WarrantyForm_schedule_remote" and "cmd \<noteq> Some Start"
    and "load (tickets_file w) = Inr db"
    and "data (session w) (lit ''serial'') = Some s"
    and "data (session w) (lit ''issue'') = Some i"
    and "\<forall>kv \<in> set db. \<not> matches s i kv"
  shows "\<exists>w'. dispatch upper (Message (Some t) cmd) now w
                = Returned w' [Answer EngineerSlot (warranty_progress_kb (lit ''unknown''))]
          \<and> tickets_file w' = tickets_file w
          \<and> orders_file w' = orders_file w
          \<and> state (session w') = Some WarrantyForm_tl_wait"
proof -
  have n: "find (matches s i) (sorted_created_desc db) = None"
    using assms(6) by (simp add: find_None_iff_no_match)
  let ?w' = "set_state WarrantyForm_tl_wait (update_data (lit ''schedule'') (strip t) w)"
  have r: "dispatch upper (Message (Some t) cmd) now w
             = Returned ?w' [Answer EngineerSlot (warranty_progress_kb (lit ''unknown''))]"
    unfolding dispatch_schedule [OF assms(1,2)]
    using assms(3,4,5) n by (rule w_schedule_remote_none)
  have "tickets_file ?w' = tickets_file w" "orders_file ?w' = orders_file w"
       "state (session ?w') = Some WarrantyForm_tl_wait"
    by (simp_all add: set_state_def update_data_def)
  with r show ?thesis by blast
qed

text \<open>
  C9. A message in the state \<open>schedule_remote\<close> when some ticket matches: the ticket chosen
  matches the session's serial and issue and no matching ticket has a later creation
  timestamp; its history gets exactly one more event \<open>remote_scheduled:<text>\<close> (the trimmed
  message text), its status becomes \<open>remote_scheduled\<close>, and the state becomes \<open>tl_wait\<close>.
  The store is a dictionary (distinct keys) whose ticket identifiers are non-empty.
\<close>

theorem schedule_with_ticket:
  assumes "state (session w) = Some WarrantyForm_schedule_remote" and "cmd \<noteq> Some Start"
    and "load (tickets_file w) = Inr db"
    and "distinct (map fst db)" and "[] \<notin> fst ` set db"
    and "data (session w) (lit ''serial'') = Some s"
    and "data (session w) (lit ''issue'') = Some i"
    and "\<exists>kv \<in> set db. matches s i kv"
  shows "\<exists>k v w'. (k, v) \<in> set db \<and> matches s i (k, v)
          \<and> (\<forall>kv \<in> set db. matches s i kv \<longrightarrow> created_at (snd kv) \<le> created_at v)
          \<and> dispatch upper (Message (Some t) cmd) now w
                = Returned w' [Answer EngineerSlot (warranty_progress_kb k)]
          \<and> load (tickets_file w')
                = Inr (dict_set db k
                         (v\<lparr>history := history v
                               @ [\<lparr>ts = isoformat (now 0), event = lit ''remote_scheduled:'' @ strip t\<rparr>],
                            status := lit ''remote_scheduled''\<rparr>))
          \<and> orders_file w' = orders_file w
          \<and> state (session w') = Some WarrantyForm_tl_wait"
proof -
  from assms(8) have "find (matches s i) (sorted_created_desc db) \<noteq> None"
    by (simp add: find_None_iff_no_match)
  then obtain k v where f: "find (matches s i) (sorted_created_desc db) = Some (k, v)"
    by (cases "find (matches s i) (sorted_created_desc db)") auto
  from find_first_is_max [OF sorted_created_desc_sorted f]
  have m: "matches s i (k, v)" and kv: "(k, v) \<in> set db"
    and mx: "\<forall>kv \<in> set db. matches s i kv \<longrightarrow> created_at (snd kv) \<le> created_at v"
    by simp_all
  have g: "dict_get db k = Some v"
    using kv assms(4) by (simp add: dict_get_def)
  have ne: "k \<noteq> []" using kv assms(5) by force
  let ?v' = "v\<lparr>history := history v
                 @ [\<lparr>ts = isoformat (now 0), event = lit ''remote_scheduled:'' @ strip t\<rparr>],
              status := lit ''remote_scheduled''\<rparr>"
  let ?w' = "set_state WarrantyForm_tl_wait
                (update_data (lit ''schedule'') (strip t) w
                   \<lparr>tickets_file := Document (dict_set db k
                       (schedule_ticket (isoformat (now 0)) (strip t) v))\<rparr>)"
  have r: "dispatch upper (Message (Some t) cmd) now w
             = Returned ?w' [Answer EngineerSlot (warranty_progress_kb k)]"
    unfolding dispatch_schedule [OF assms(1,2)]
    using assms(3,6,7) f ne g by (rule w_schedule_remote_some)
  have l: "load (tickets_file ?w') = Inr (dict_set db k ?v')"
    by (simp add: set_state_def update_data_def schedule_ticket_def)
  have o: "orders_file ?w' = orders_file w" "state (session ?w') = Some WarrantyForm_tl_wait"
    by (simp_all add: set_state_def update_data_def)
  from kv m mx r l o show ?thesis by blast
qed

theorem schedule_without_ticket_witness:
  "state (session example_schedule_other) = Some WarrantyForm_schedule_remote
   \<and> (None :: command option) \<noteq> Some Start
   \<and> load (tickets_file example_schedule_other) = Inr example_tickets
   \<and> data (session example_schedule_other) (lit ''serial'') = Some (lit ''SN-99'')
   \<and> data (session example_schedule_other) (lit ''issue'') = Some (lit ''no sound'')
   \<and> filter (matches (lit ''SN-99'') (lit ''no sound'')) example_tickets = []
   \<and> (\<exists>w'. dispatch (\<lambda>s. s) (Message (Some (lit ''tomorrow 10:00'')) None) example_clock
               example_schedule_other
             = Returned w' [Answer EngineerSlot (warranty_progress_kb (lit ''unknown''))]
          \<and> tickets_file w' = tickets_file example_schedule_other
          \<and> state (session w') = Some WarrantyForm_tl_wait)"
proof -
  have s: "state (session example_schedule_other) = Some WarrantyForm_schedule_remote"
    by (simp add: example_schedule_other_def)
  have c: "(None :: command option) \<noteq> Some Start" by simp
  have l: "load (tickets_file example_schedule_other) = Inr example_tickets"
    by (simp add: example_schedule_other_def)
  have d1: "data (session example_schedule_other) (lit ''serial'') = Some (lit ''SN-99'')"
    by (simp add: example_schedule_other_def example_other_data_def)
  have d2: "data (session example_schedule_other) (lit ''issue'') = Some (lit ''no sound'')"
    by (simp add: example_schedule_other_def example_other_data_def)
  have n: "\<forall>kv \<in> set example_tickets. \<not> matches (lit ''SN-99'') (lit ''no sound'') kv"
    by (simp add: example_tickets_def matches_def example_ticket_def example_ticket2_def)
  have f: "filter (matches (lit ''SN-99'') (lit ''no sound'')) example_tickets = []"
    using n by (simp add: filter_empty_conv)
  from schedule_without_ticket [where now = example_clock and upper = "\<lambda>s. s"
         and t = "lit ''tomorrow 10:00''", OF s c l d1 d2 n]
  show ?thesis using s c l d1 d2 f by blast
qed

theorem schedule_with_ticket_witness:
  "state (session example_schedule) = Some WarrantyForm_schedule_remote
   \<and> (None :: command option) \<noteq> Some Start
   \<and> load (tickets_file example_schedule) = Inr example_tickets
   \<and> distinct (map fst example_tickets) \<and> [] \<notin> fst ` set example_tickets
   \<and> data (session example_schedule) (lit ''serial'') = Some (lit ''SN-01'')
   \<and> data (session example_schedule) (lit ''issue'') = Some (lit ''screen flicker'')
   \<and> filter (matches (lit ''SN-01'') (lit ''screen flicker'')) example_tickets = example_tickets
   \<and> (\<exists>k v w'. (k, v) \<in> set example_tickets
          \<and> created_at example_ticket \<le> created_at v
          \<and> created_at example_ticket2 \<le> created_at v
          \<and> dispatch (\<lambda>s. s) (Message (Some (lit ''tomorrow 10:00'')) None) example_clock
               example_schedule
             = Returned w' [Answer EngineerSlot (warranty_progress_kb k)]
          \<and> load (tickets_file w')
             = Inr (dict_set example_tickets k
                      (v\<lparr>history := history v
                            @ [\<lparr>ts = isoformat (example_clock 0),
                                event = lit ''remote_scheduled:'' @ strip (lit ''tomorrow 10:00'')\<rparr>],
                         status := lit ''remote_scheduled''\<rparr>))
          \<and> state (session w') = Some WarrantyForm_tl_wait)"
proof -
  have s: "state (session example_schedule) = Some WarrantyForm_schedule_remote"
    by (simp add: example_schedule_def)
  have c: "(None :: command option) \<noteq> Some Start" by simp
  have l: "load (tickets_file example_schedule) = Inr example_tickets"
    by (simp add: example_schedule_def)
  have di: "distinct (map fst example_tickets)" by (simp add: example_tickets_def)
  have ne: "[] \<notin> fst ` set example_tickets" by (simp add: example_tickets_def lit_def)
  have d1: "data (session example_schedule) (lit ''serial'') = Some (lit ''SN-01'')"
    by (simp add: example_schedule_def example_data_def)
  have d2: "data (session example_schedule) (lit ''issue'') = Some (lit ''screen flicker'')"
    by (simp add: example_schedule_def example_data_def)
  have m: "\<exists>kv \<in> set example_tickets. matches (lit ''SN-01'') (lit ''screen flicker'') kv"
    by (simp add: example_tickets_def matches_def example_ticket_def)
  have f: "filter (matches (lit ''SN-01'') (lit ''screen flicker'')) example_tickets = example_tickets"
    by (simp add: example_tickets_def matches_def example_ticket_def example_ticket2_def)
  have m1: "matches (lit ''SN-01'') (lit ''screen flicker'') (lit ''T20250301-0001'', example_ticket)"
    and m2: "matches (lit ''SN-01'') (lit ''screen flicker'') (lit ''T20250305-0002'', example_ticket2)"
    by (simp_all add: matches_def example_ticket_def example_ticket2_def)
  have i1: "(lit ''T20250301-0001'', example_ticket) \<in> set example_tickets"
    and i2: "(lit ''T20250305-0002'', example_ticket2) \<in> set example_tickets"
    by (simp_all add: example_tickets_def)
  from schedule_with_ticket [where now = example_clock and upper = "\<lambda>s. s"
         and t = "lit ''tomorrow 10:00''", OF s c l di ne d1 d2 m]
  obtain k v w' where r: "(k, v) \<in> set example_tickets"
     "\<forall>kv \<in> set example_tickets. matches (lit ''SN-01'') (lit ''screen flicker'') kv
          \<longrightarrow> created_at (snd kv) \<le> created_at v"
     "dispatch (\<lambda>s. s) (Message (Some (lit ''tomorrow 10:00'')) None) example_clock
               example_schedule
             = Returned w' [Answer EngineerSlot (warranty_progress_kb k)]"
     "load (tickets_file w')
             = Inr (dict_set example_tickets k
                      (v\<lparr>history := history v
                            @ [\<lparr>ts = isoformat (example_clock 0),
                                event = lit ''remote_scheduled:'' @ strip (lit ''tomorrow 10:00'')\<rparr>],
                         status := lit ''remote_scheduled''\<rparr>))"
     "state (session w') = Some WarrantyForm_tl_wait"
    by blast
  from r(2) i1 m1 have c1: "created_at example_ticket \<le> created_at v" by fastforce
  from r(2) i2 m2 have c2: "created_at example_ticket2 \<le> created_at v" by fastforce
  from r(1,3,4,5) c1 c2 s c l di ne d1 d2 f show ?thesis by blast
qed

lemma schedule_picks_latest:
  "replies_of (dispatch (\<lambda>s. s) (Message (Some (lit ''tomorrow 10:00'')) None) example_clock
                 example_schedule)
     = [Answer EngineerSlot (warranty_progress_kb (lit ''T20250305-0002''))]"
  by code_simp

subsection \<open>The order flow\<close>

lemma example_renderings:
  "strftime_Ymd example_now = lit ''20250309''"
  "isoformat example_now = lit ''2025-03-09T14:05:07''"
  "fmt_0d 4 (Suc 0) = lit ''0001''"
  "fmt_0d 4 (Suc (Suc 0)) = lit ''0002''"
  by code_simp+

lemmas eval_defs =
  dispatch_callback_def dispatch_message_def Let_def cb_buy_def cb_warranty_def buy_name_def
  buy_email_def buy_phone_def buy_city_def buy_address_def buy_delivery_def w_serial_def w_issue_def
  w_remote_def w_progress_def w_schedule_remote_def next_order_id_def next_ticket_id_def
  set_state_def update_data_def get_data_def clear_def save_def
  strip_def isspace_def email_pattern_def startswith_def startswith_any_def stage_actions_def
  options_get_def options_def order_of_def new_ticket_def advance_ticket_def mapping_def
  partition_at_def dict_get_def ascii_upper_def example_clock_def example_renderings

lemma buy_trace_world: "run ascii_upper example_buy_trace example_world = example_delivery"
  by (simp add: example_buy_trace_def example_world_def example_delivery_def eval_defs lit_def)

lemma w_progress_frame:
  "orders_file (world_of (w_progress c now w)) = orders_file w
   \<and> session (world_of (w_progress c now w)) = session w"
  by (simp add: w_progress_def split: prod.split sum.split option.split)

lemma admin_frame:
  "world_of (admin_orders w) = w" "world_of (admin_tickets w) = w"
  by (simp_all add: admin_orders_def admin_tickets_def split: sum.split)

lemma delivery_other_callback:
  assumes "state (session w) = Some BuyForm_taking_delivery"
    and "\<not> startswith c (lit ''del_'')"
  shows "orders_file (world_of (dispatch upper (Callback c) now w)) = orders_file w
         \<and> state (session (world_of (dispatch upper (Callback c) now w))) \<noteq> None"
  using assms w_progress_frame [of c now w]
  by (simp add: Let_def dispatch_callback_def cb_home_def cb_presentation_def cb_contacts_def cb_buy_def
        cb_warranty_def set_state_def)

lemma delivery_message:
  assumes "state (session w) = Some BuyForm_taking_delivery"
  shows "world_of (dispatch upper (Message m cmd) now w) = w"
  using assms by (simp add: Let_def dispatch_message_def cmd_start_def admin_frame)

lemma inv_buy_name: "flow_inv w \<Longrightarrow> flow_inv (world_of (buy_name m w))"
  by (simp add: buy_name_def flow_inv_def session_keys_def set_state_def update_data_def split: option.split)

lemma inv_buy_email:
  "flow_inv w \<Longrightarrow> state (session w) = Some BuyForm_taking_email \<Longrightarrow> flow_inv (world_of (buy_email m w))"
  by (simp add: buy_email_def flow_inv_def session_keys_def set_state_def update_data_def Let_def split: option.split)

lemma inv_buy_phone:
  "flow_inv w \<Longrightarrow> state (session w) = Some BuyForm_taking_phone \<Longrightarrow> flow_inv (world_of (buy_phone m w))"
  by (simp add: buy_phone_def flow_inv_def session_keys_def set_state_def update_data_def split: option.split)

lemma inv_buy_city:
  "flow_inv w \<Longrightarrow> state (session w) = Some BuyForm_taking_city \<Longrightarrow> flow_inv (world_of (buy_city m w))"
  by (simp add: buy_city_def flow_inv_def session_keys_def set_state_def update_data_def split: option.split)

lemma inv_buy_address:
  "flow_inv w \<Longrightarrow> state (session w) = Some BuyForm_taking_address \<Longrightarrow> flow_inv (world_of (buy_address m w))"
  by (simp add: buy_address_def flow_inv_def session_keys_def set_state_def update_data_def split: option.split)

lemma inv_w_serial: "flow_inv w \<Longrightarrow> flow_inv (world_of (w_serial upper m w))"
  by (simp add: w_serial_def flow_inv_def session_keys_def set_state_def update_data_def Let_def split: option.split)

lemma inv_w_issue: "flow_inv w \<Longrightarrow> flow_inv (world_of (w_issue m w))"
  by (simp add: w_issue_def flow_inv_def session_keys_def set_state_def update_data_def split: option.split)

lemma inv_w_schedule:
  "flow_inv w \<Longrightarrow> state (session w) = Some WarrantyForm_schedule_remote \<Longrightarrow>
     flow_inv (world_of (w_schedule_remote m now w))"
  by (simp add: w_schedule_remote_def flow_inv_def session_keys_def set_state_def update_data_def Let_def
        split: option.split sum.split)

lemma inv_w_remote:
  "flow_inv w \<Longrightarrow> state (session w) = Some WarrantyForm_ask_remote \<Longrightarrow> flow_inv (world_of (w_remote c now w))"
  by (simp add: w_remote_def flow_inv_def session_keys_def set_state_def Let_def split: sum.split)

lemma inv_buy_delivery:
  "flow_inv w \<Longrightarrow> flow_inv (world_of (buy_delivery c now w))"
  by (simp add: buy_delivery_def flow_inv_def session_keys_def clear_def update_data_def Let_def list_all_iff
        split: sum.split)

lemma inv_w_progress: "flow_inv w \<Longrightarrow> flow_inv (world_of (w_progress c now w))"
  using w_progress_frame [of c now w] by (simp add: flow_inv_def)

lemma inv_dispatch: "flow_inv w \<Longrightarrow> flow_inv (world_of (dispatch upper u now w))"
proof (cases u)
  case (Message m cmd)
  assume "flow_inv w"
  then show ?thesis
    unfolding Message
    by (simp add: dispatch_message_def Let_def cmd_start_def admin_frame inv_buy_name
          inv_buy_email inv_buy_phone inv_buy_city inv_buy_address inv_w_serial inv_w_issue
          inv_w_schedule)
next
  case (Callback c)
  assume i: "flow_inv w"
  have s: "flow_inv (set_state BuyForm_taking_name w)" "flow_inv (set_state WarrantyForm_taking_serial w)"
    using i by (simp_all add: flow_inv_def set_state_def)
  from i s show ?thesis
    unfolding Callback
    by (simp add: dispatch_callback_def Let_def cb_home_def cb_presentation_def cb_contacts_def
          cb_buy_def cb_warranty_def inv_buy_delivery inv_w_remote inv_w_progress)
qed

lemma inv_run: "flow_inv w \<Longrightarrow> flow_inv (run upper evs w)"
  by (induction evs arbitrary: w) (auto simp: inv_dispatch)

lemma buy_delivery_result:
  assumes "load (orders_file w) = Inr db"
  shows "buy_delivery c now w
    = Returned
        (clear (update_data (lit ''delivery'') (options_get c) w
           \<lparr>orders_file := Document
              (dict_set db (lit ''O'' @ strftime_Ymd (now 0) @ lit ''-'' @ fmt_0d 4 (length db + 1))
                 (order_of (isoformat (now 1))
                    ((data (session w))(lit ''delivery'' \<mapsto> options_get c))))\<rparr>))
        [Answer (OrderCreated (lit ''O'' @ strftime_Ymd (now 0) @ lit ''-'' @ fmt_0d 4 (length db + 1)))
           back_menu, OrderPlacedNotice]"
  using assms
  by (simp add: buy_delivery_def next_order_id_def Let_def update_data_def get_data_def save_def)

lemma dispatch_delivery:
  assumes "state (session w) = Some BuyForm_taking_delivery" and "startswith c (lit ''del_'')"
  shows "dispatch upper (Callback c) now w = buy_delivery c now w"
proof -
  obtain r where h: "c = lit ''del_'' @ r"
    using assms(2) unfolding startswith_def by (metis append_take_drop_id)
  have "c \<noteq> lit ''menu_home''" "c \<noteq> lit ''menu_presentation''" "c \<noteq> lit ''menu_contacts''"
    "c \<noteq> lit ''menu_buy''"
    unfolding h by (simp_all add: lit_def)
  with assms show ?thesis by (simp add: dispatch_callback_def Let_def)
qed

lemma order_of_computed:
  "d (lit ''created_at'') = None \<Longrightarrow> order_of cr d (lit ''created_at'') = Some (JStr cr)"
  "d (lit ''product'') = None \<Longrightarrow> order_of cr d (lit ''product'') = Some (JStr PRODUCT_name)"
  "d (lit ''price'') = None \<Longrightarrow> order_of cr d (lit ''price'') = Some (JInt PRODUCT_price)"
  by (simp_all add: order_of_def map_add_def)

lemma order_of_data: "d k = Some x \<Longrightarrow> order_of cr d k = Some (JStr x)"
  by (simp add: order_of_def map_add_def)

lemma order_of_other:
  "k \<noteq> lit ''created_at'' \<Longrightarrow> k \<noteq> lit ''product'' \<Longrightarrow> k \<noteq> lit ''price'' \<Longrightarrow>
     order_of cr d k = map_option JStr (d k)"
  by (simp add: order_of_def map_add_def split: option.split)

lemma options_get_cases:
  "options_get (lit ''del_standard'') = label_standard"
  "options_get (lit ''del_express'') = label_express"
  "options_get (lit ''del_pickup'') = label_pickup"
  "c \<noteq> lit ''del_standard'' \<Longrightarrow> c \<noteq> lit ''del_express'' \<Longrightarrow> c \<noteq> lit ''del_pickup'' \<Longrightarrow>
     options_get c = label_default"
  by (simp_all add: options_get_def options_def)

text \<open>
  C5, as stated, fails: in the step \<open>taking_delivery\<close> the callback \<open>del_foo\<close>, which is none of
  the three options, passes the filter \<open>startswith("del_")\<close>; the order is persisted with
  the default label of \<open>options.get\<close> and the session is cleared.
\<close>

theorem delivery_default_counterexample:
  "lit ''del_foo'' \<notin> set (map fst options)
   \<and> state (session example_delivery) = Some BuyForm_taking_delivery
   \<and> map fst (stored (orders_file example_delivery)) = []
   \<and> map fst (stored (orders_file (world_of (dispatch ascii_upper (Callback (lit ''del_foo''))
                                               example_clock example_delivery))))
        = [lit ''O20250309-0001'']
   \<and> order_field (stored (orders_file (world_of (dispatch ascii_upper (Callback (lit ''del_foo''))
                                               example_clock example_delivery))))
        (lit ''O20250309-0001'') (lit ''delivery'') = Some (JStr label_default)
   \<and> state (session (world_of (dispatch ascii_upper (Callback (lit ''del_foo''))
                                  example_clock example_delivery))) = None"
  by (simp add: example_delivery_def order_field_def stored_def eval_defs lit_def)

text \<open>
  C5, amended. In the step \<open>taking_delivery\<close>, every callback whose data starts with \<open>del_\<close>
  completes the order: the three options store their own label and any other such data
  stores the default label; the order is persisted and the session cleared. A callback
  whose data does not start with \<open>del_\<close> leaves the order store as it was and does not
  clear the session, and a message changes nothing at all.
\<close>

theorem delivery_step:
  assumes "state (session w) = Some BuyForm_taking_delivery"
  shows "(startswith c (lit ''del_'') \<and> load (orders_file w) = Inr db \<longrightarrow>
            (\<exists>order_id ord w' rs.
                dispatch upper (Callback c) now w = Returned w' rs
              \<and> load (orders_file w') = Inr (dict_set db order_id ord)
              \<and> ord (lit ''delivery'') = Some (JStr (options_get c))
              \<and> session w' = \<lparr>state = None, data = Map.empty\<rparr>))
       \<and> options_get (lit ''del_standard'') = label_standard
       \<and> options_get (lit ''del_express'') = label_express
       \<and> options_get (lit ''del_pickup'') = label_pickup
       \<and> (c \<noteq> lit ''del_standard'' \<and> c \<noteq> lit ''del_express'' \<and> c \<noteq> lit ''del_pickup''
            \<longrightarrow> options_get c = label_default)
       \<and> (\<not> startswith c (lit ''del_'') \<longrightarrow>
             orders_file (world_of (dispatch upper (Callback c) now w)) = orders_file w
           \<and> state (session (world_of (dispatch upper (Callback c) now w))) \<noteq> None)
       \<and> world_of (dispatch upper (Message m cmd) now w) = w"
proof -
  have a: "\<exists>order_id ord w' rs.
                dispatch upper (Callback c) now w = Returned w' rs
              \<and> load (orders_file w') = Inr (dict_set db order_id ord)
              \<and> ord (lit ''delivery'') = Some (JStr (options_get c))
              \<and> session w' = \<lparr>state = None, data = Map.empty\<rparr>"
    if sw: "startswith c (lit ''del_'')" and l: "load (orders_file w) = Inr db"
  proof -
    let ?id = "lit ''O'' @ strftime_Ymd (now 0) @ lit ''-'' @ fmt_0d 4 (length db + 1)"
    let ?ord = "order_of (isoformat (now 1)) ((data (session w))(lit ''delivery'' \<mapsto> options_get c))"
    let ?w' = "clear (update_data (lit ''delivery'') (options_get c) w
                 \<lparr>orders_file := Document (dict_set db ?id ?ord)\<rparr>)"
    have "dispatch upper (Callback c) now w
            = Returned ?w' [Answer (OrderCreated ?id) back_menu, OrderPlacedNotice]"
      unfolding dispatch_delivery [OF assms sw] using l by (rule buy_delivery_result)
    moreover have "load (orders_file ?w') = Inr (dict_set db ?id ?ord)"
      by (simp add: clear_def update_data_def)
    moreover have "?ord (lit ''delivery'') = Some (JStr (options_get c))"
      by (rule order_of_data) simp
    moreover have "session ?w' = \<lparr>state = None, data = Map.empty\<rparr>"
      by (simp add: clear_def)
    ultimately show ?thesis by blast
  qed
  from a options_get_cases delivery_other_callback [OF assms] delivery_message [OF assms]
  show ?thesis by blast
qed

theorem delivery_step_witness:
  "state (session example_delivery) = Some BuyForm_taking_delivery
   \<and> startswith (lit ''del_express'') (lit ''del_'')
   \<and> load (orders_file example_delivery) = Inr []
   \<and> (\<exists>order_id ord w' rs.
          dispatch ascii_upper (Callback (lit ''del_express'')) example_clock example_delivery
            = Returned w' rs
        \<and> load (orders_file w') = Inr (dict_set [] order_id ord)
        \<and> ord (lit ''delivery'') = Some (JStr label_express)
        \<and> session w' = \<lparr>state = None, data = Map.empty\<rparr>)
   \<and> orders_file (world_of (dispatch ascii_upper (Callback (lit ''buy_back'')) example_clock
                               example_delivery)) = orders_file example_delivery
   \<and> world_of (dispatch ascii_upper (Message (Some (lit ''express'')) None) example_clock
                  example_delivery) = example_delivery"
proof -
  have s: "state (session example_delivery) = Some BuyForm_taking_delivery"
    by (simp add: example_delivery_def)
  have p: "startswith (lit ''del_express'') (lit ''del_'')" by code_simp
  have q: "\<not> startswith (lit ''buy_back'') (lit ''del_'')" by code_simp
  have l: "load (orders_file example_delivery) = Inr []" by (simp add: example_delivery_def)
  note a = delivery_step [OF s, where c = "lit ''del_express''" and db = "[]"
             and upper = ascii_upper and now = example_clock
             and m = "Some (lit ''express'')" and cmd = None]
  note b = delivery_step [OF s, where c = "lit ''buy_back''" and db = "[]"
             and upper = ascii_upper and now = example_clock
             and m = "Some (lit ''express'')" and cmd = None]
  from a p l have 1: "\<exists>order_id ord w' rs.
          dispatch ascii_upper (Callback (lit ''del_express'')) example_clock example_delivery
            = Returned w' rs
        \<and> load (orders_file w') = Inr (dict_set [] order_id ord)
        \<and> ord (lit ''delivery'') = Some (JStr label_express)
        \<and> session w' = \<lparr>state = None, data = Map.empty\<rparr>"
    by (simp add: options_get_cases)
  from b q have 2: "orders_file (world_of (dispatch ascii_upper (Callback (lit ''buy_back''))
                       example_clock example_delivery)) = orders_file example_delivery"
    by blast
  from a have 3: "world_of (dispatch ascii_upper (Message (Some (lit ''express'')) None)
                     example_clock example_delivery) = example_delivery"
    by blast
  from s p l 1 2 3 show ?thesis by blast
qed

text \<open>
  C8, as stated, fails: a session that went through the warranty flow still holds
  \<open>serial\<close> when the order is built from \<open>**data\<close>, so the persisted order has a field
  that is none of the nine the specification names.
\<close>

theorem order_record_extra_field_counterexample:
  "order_field
     (stored (orders_file (run ascii_upper example_warranty_then_buy example_world)))
     (lit ''O20250309-0001'') (lit ''serial'') = Some (JStr (lit ''SN-01''))
   \<and> lit ''serial'' \<notin> set order_fields"
  by (simp add: example_warranty_then_buy_def example_buy_trace_def example_world_def
        order_field_def stored_def order_fields_def eval_defs lit_def)

lemma flow_inv_fresh:
  "session w = \<lparr>state = None, data = Map.empty\<rparr> \<Longrightarrow> flow_inv w"
  by (simp add: flow_inv_def)

text \<open>
  C8, amended. For a session that started empty: when the order flow completes, the
  order stored under the generated identifier holds the creation timestamp, the product
  name and the price, the five collected texts and the delivery label; any other entry
  is an entry \<open>serial\<close>, \<open>issue\<close> or \<open>schedule\<close> still held by the session; and the session
  is empty afterwards.
\<close>

theorem order_record:
  assumes "session w0 = \<lparr>state = None, data = Map.empty\<rparr>"
    and "w = run upper evs w0"
    and "state (session w) = Some BuyForm_taking_delivery"
    and "startswith c (lit ''del_'')"
    and "load (orders_file w) = Inr db"
  shows "\<exists>order_id ord w' rs.
           next_order_id (now 0) (orders_file w) = Inr order_id
         \<and> dispatch upper (Callback c) now w = Returned w' rs
         \<and> load (orders_file w') = Inr (dict_set db order_id ord)
         \<and> ord (lit ''created_at'') = Some (JStr (isoformat (now 1)))
         \<and> ord (lit ''product'') = Some (JStr PRODUCT_name)
         \<and> ord (lit ''price'') = Some (JInt PRODUCT_price)
         \<and> ord (lit ''delivery'') = Some (JStr (options_get c))
         \<and> (\<forall>k \<in> {lit ''name'', lit ''email'', lit ''phone'', lit ''city'', lit ''address''}.
               \<exists>x. data (session w) k = Some x \<and> ord k = Some (JStr x))
         \<and> (\<forall>k. k \<notin> set order_fields \<longrightarrow> ord k = map_option JStr (data (session w) k))
         \<and> dom ord \<subseteq> set order_fields \<union> {lit ''serial'', lit ''issue'', lit ''schedule''}
         \<and> session w' = \<lparr>state = None, data = Map.empty\<rparr>"
proof -
  have inv: "flow_inv w"
    unfolding assms(2) using assms(1) by (intro inv_run flow_inv_fresh)
  let ?id = "lit ''O'' @ strftime_Ymd (now 0) @ lit ''-'' @ fmt_0d 4 (length db + 1)"
  let ?d = "(data (session w))(lit ''delivery'' \<mapsto> options_get c)"
  let ?ord = "order_of (isoformat (now 1)) ?d"
  let ?w' = "clear (update_data (lit ''delivery'') (options_get c) w
               \<lparr>orders_file := Document (dict_set db ?id ?ord)\<rparr>)"
  from inv assms(3) have five:
    "\<forall>k \<in> {lit ''name'', lit ''email'', lit ''phone'', lit ''city'', lit ''address''}.
        \<exists>x. data (session w) k = Some x"
    and keys: "dom (data (session w)) \<subseteq> set session_keys"
    by (simp_all add: flow_inv_def)
  have nk: "data (session w) (lit ''created_at'') = None" "data (session w) (lit ''product'') = None"
    "data (session w) (lit ''price'') = None"
    using keys by (auto simp: session_keys_def)
  have i: "next_order_id (now 0) (orders_file w) = Inr ?id"
    using assms(5) by (simp add: next_order_id_def)
  have d: "dispatch upper (Callback c) now w
            = Returned ?w' [Answer (OrderCreated ?id) back_menu, OrderPlacedNotice]"
    unfolding dispatch_delivery [OF assms(3,4)] using assms(5) by (rule buy_delivery_result)
  have l: "load (orders_file ?w') = Inr (dict_set db ?id ?ord)"
    by (simp add: clear_def update_data_def)
  have c1: "?ord (lit ''created_at'') = Some (JStr (isoformat (now 1)))"
    and c2: "?ord (lit ''product'') = Some (JStr PRODUCT_name)"
    and c3: "?ord (lit ''price'') = Some (JInt PRODUCT_price)"
    using nk by (simp_all add: order_of_computed)
  have c4: "?ord (lit ''delivery'') = Some (JStr (options_get c))"
    by (rule order_of_data) simp
  have c5: "\<forall>k \<in> {lit ''name'', lit ''email'', lit ''phone'', lit ''city'', lit ''address''}.
               \<exists>x. data (session w) k = Some x \<and> ?ord k = Some (JStr x)"
    using five by (auto simp: order_of_data)
  have c6: "\<forall>k. k \<notin> set order_fields \<longrightarrow> ?ord k = map_option JStr (data (session w) k)"
    by (simp add: order_fields_def order_of_other)
  have c7: "dom ?ord \<subseteq> set order_fields \<union> {lit ''serial'', lit ''issue'', lit ''schedule''}"
  proof
    fix k assume "k \<in> dom ?ord"
    then have "k = lit ''created_at'' \<or> k = lit ''product'' \<or> k = lit ''price'' \<or> k \<in> dom ?d"
      by (auto simp: order_of_def map_add_def split: option.splits if_splits)
    with keys show "k \<in> set order_fields \<union> {lit ''serial'', lit ''issue'', lit ''schedule''}"
      by (auto simp: order_fields_def session_keys_def)
  qed
  have e: "session ?w' = \<lparr>state = None, data = Map.empty\<rparr>" by (simp add: clear_def)
  show ?thesis
    apply (rule exI [of _ ?id])
    apply (rule exI [of _ ?ord])
    apply (rule exI [of _ ?w'])
    apply (rule exI [of _ "[Answer (OrderCreated ?id) back_menu, OrderPlacedNotice]"])
    using i d l c1 c2 c3 c4 c5 c6 c7 e apply (intro conjI)
              apply assumption+
    done
qed

theorem order_record_witness:
  "session example_world = \<lparr>state = None, data = Map.empty\<rparr>
   \<and> state (session (run ascii_upper example_buy_trace example_world)) = Some BuyForm_taking_delivery
   \<and> startswith (lit ''del_pickup'') (lit ''del_'')
   \<and> load (orders_file (run ascii_upper example_buy_trace example_world)) = Inr []
   \<and> (\<exists>order_id ord w' rs.
           next_order_id (example_clock 0) (orders_file (run ascii_upper example_buy_trace example_world))
             = Inr order_id
         \<and> dispatch ascii_upper (Callback (lit ''del_pickup'')) example_clock
              (run ascii_upper example_buy_trace example_world) = Returned w' rs
         \<and> load (orders_file w') = Inr (dict_set [] order_id ord)
         \<and> ord (lit ''created_at'') = Some (JStr (isoformat (example_clock 1)))
         \<and> ord (lit ''product'') = Some (JStr PRODUCT_name)
         \<and> ord (lit ''price'') = Some (JInt PRODUCT_price)
         \<and> ord (lit ''delivery'') = Some (JStr label_pickup)
         \<and> ord (lit ''name'') = Some (JStr (lit ''Thandi M''))
         \<and> ord (lit ''serial'') = None
         \<and> session w' = \<lparr>state = None, data = Map.empty\<rparr>)"
proof -
  let ?w = "run ascii_upper example_buy_trace example_world"
  have f: "session example_world = \<lparr>state = None, data = Map.empty\<rparr>"
    by (simp add: example_world_def)
  have s: "state (session ?w) = Some BuyForm_taking_delivery"
    by (simp add: buy_trace_world example_delivery_def)
  have p: "startswith (lit ''del_pickup'') (lit ''del_'')" by code_simp
  have l: "load (orders_file ?w) = Inr []"
    by (simp add: buy_trace_world example_delivery_def)
  have n: "data (session ?w) (lit ''name'') = Some (lit ''Thandi M'')"
    by (simp add: buy_trace_world example_delivery_def)
  have x: "data (session ?w) (lit ''serial'') = None"
    by (simp add: buy_trace_world example_delivery_def)
  have k: "lit ''serial'' \<notin> set order_fields" by (simp add: order_fields_def)
  from order_record [where now = example_clock, OF f refl s p l]
  obtain order_id ord w' rs where r:
    "next_order_id (example_clock 0) (orders_file ?w) = Inr order_id"
    "dispatch ascii_upper (Callback (lit ''del_pickup'')) example_clock ?w = Returned w' rs"
    "load (orders_file w') = Inr (dict_set [] order_id ord)"
    "ord (lit ''created_at'') = Some (JStr (isoformat (example_clock 1)))"
    "ord (lit ''product'') = Some (JStr PRODUCT_name)"
    "ord (lit ''price'') = Some (JInt PRODUCT_price)"
    "ord (lit ''delivery'') = Some (JStr (options_get (lit ''del_pickup'')))"
    "\<forall>k \<in> {lit ''name'', lit ''email'', lit ''phone'', lit ''city'', lit ''address''}.
        \<exists>x. data (session ?w) k = Some x \<and> ord k = Some (JStr x)"
    "\<forall>k. k \<notin> set order_fields \<longrightarrow> ord k = map_option JStr (data (session ?w) k)"
    "session w' = \<lparr>state = None, data = Map.empty\<rparr>"
    by blast
  from r(8) n have on: "ord (lit ''name'') = Some (JStr (lit ''Thandi M''))" by auto
  from r(9) k x have os: "ord (lit ''serial'') = None" by simp
  have od: "ord (lit ''delivery'') = Some (JStr label_pickup)"
    using r(7) by (simp add: options_get_cases)
  from f s p l r(1,2,3,4,5,6,10) on os od show ?thesis by blast
qed

subsection \<open>The ticket history\<close>

lemma derived_status_snoc:
  "status_set_by e = Some s \<Longrightarrow> derived_status (h @ [\<lparr>ts = t, event = e\<rparr>]) = Some s"
  by (simp add: derived_status_def)

lemma status_set_by_action:
  "map_of mapping a = Some s \<Longrightarrow> status_set_by a = Some s"
proof -
  assume m: "map_of mapping a = Some s"
  then have "a \<in> set stage_actions"
    by (auto simp: mapping_def stage_actions_def split: if_splits)
  with m show ?thesis by (simp add: status_set_by_def)
qed

lemma status_set_by_scheduled:
  "status_set_by (lit ''remote_scheduled:'' @ x) = Some (lit ''remote_scheduled'')"
proof -
  have "lit ''remote_scheduled:'' @ x \<notin> set stage_actions"
    using stage_action_no_colon [of "lit ''remote_scheduled:'' @ x"] by (auto simp: lit_def)
  then show ?thesis by (simp add: status_set_by_def startswith_def)
qed

lemma new_ticket_ok:
  "c = lit ''yes'' \<or> c = lit ''no'' \<Longrightarrow> ticket_ok (new_ticket c now d)"
  by (auto simp: ticket_ok_def new_ticket_def derived_status_def status_set_by_def
        stage_actions_def startswith_def lit_def)

lemma id_seq_new: "id_seq (p @ lit ''-'' @ fmt_0d w n) = n"
proof -
  have d: "\<forall>c \<in> set (fmt_0d w n). c \<noteq> 45"
    using fmt_0d_digits [of w n] by (auto simp: is_digits_def list_all_iff)
  have "takeWhile (\<lambda>c. c \<noteq> 45) (rev (p @ lit ''-'' @ fmt_0d w n)) = rev (fmt_0d w n)"
    using d by (simp add: lit_def takeWhile_append)
  then show ?thesis by (simp add: id_seq_def fmt_0d_value)
qed

lemma store_step_refl: "store_step db db"
  by (simp add: store_step_def)

lemma stored_Document [simp]: "stored (Document db) = db"
  by (simp add: stored_def)

lemma stored_load: "load f = Inr db \<Longrightarrow> stored f = db"
  by (simp add: stored_def)

lemma w_progress_step:
  "store_step (stored (tickets_file w)) (stored (tickets_file (world_of (w_progress c now w))))"
proof (cases "load (tickets_file w)")
  case (Inl e)
  then show ?thesis by (simp add: w_progress_def store_step_refl split: prod.split)
next
  case (Inr db)
  obtain a tid where p: "partition_at 58 c = (a, tid)" by (cases "partition_at 58 c")
  show ?thesis
  proof (cases "dict_get db tid")
    case None
    with Inr p show ?thesis by (simp add: w_progress_def store_step_refl)
  next
    case (Some v)
    show ?thesis
    proof (cases "map_of mapping a")
      case None
      with Inr p Some show ?thesis by (simp add: w_progress_def store_step_refl)
    next
      case (Some s)
      from Some have e: "status_set_by a = Some s" by (rule status_set_by_action)
      have "stored (tickets_file (world_of (w_progress c now w)))
              = dict_set db tid (v\<lparr>history := history v @ [\<lparr>ts = isoformat (now 0), event = a\<rparr>],
                                  status := s\<rparr>)"
        using Inr p \<open>dict_get db tid = Some v\<close> Some
        by (simp add: w_progress_def advance_ticket_def save_def)
      with e \<open>dict_get db tid = Some v\<close> show ?thesis
        unfolding store_step_def stored_load [OF Inr] by blast
    qed
  qed
qed

lemma find_ticket_in:
  "find_ticket d xs = Inr (Some k) \<Longrightarrow> k \<in> fst ` set xs"
  by (induction xs) (auto split: option.splits if_splits)

lemma w_schedule_step:
  "store_step (stored (tickets_file w)) (stored (tickets_file (world_of (w_schedule_remote m now w))))"
proof (cases m)
  case None
  then show ?thesis by (simp add: w_schedule_remote_def store_step_refl)
next
  case (Some t)
  let ?w1 = "update_data (lit ''schedule'') (strip t) w"
  have tf: "tickets_file ?w1 = tickets_file w" by (simp add: update_data_def)
  show ?thesis
  proof (cases "load (tickets_file w)")
    case (Inl e)
    with Some tf show ?thesis by (simp add: w_schedule_remote_def store_step_refl Let_def)
  next
    case (Inr db)
    show ?thesis
    proof (cases "find_ticket (get_data ?w1) (sorted_created_desc db)")
      case (Inl e)
      with Some tf Inr show ?thesis by (simp add: w_schedule_remote_def store_step_refl Let_def)
    next
      case r: (Inr found)
      show ?thesis
      proof (cases "if truthy found then found else None")
        case None
        with Some tf Inr r show ?thesis
          by (simp add: w_schedule_remote_def store_step_refl Let_def set_state_def)
      next
        case k: (Some k)
        show ?thesis
        proof (cases "dict_get db k")
          case None
          with Some tf Inr r k show ?thesis
            by (simp add: w_schedule_remote_def store_step_refl Let_def)
        next
          case v: (Some v)
          have "stored (tickets_file (world_of (w_schedule_remote m now w)))
                  = dict_set db k (v\<lparr>history := history v
                        @ [\<lparr>ts = isoformat (now 0), event = lit ''remote_scheduled:'' @ strip t\<rparr>],
                      status := lit ''remote_scheduled''\<rparr>)"
            using Some tf Inr r k v
            by (simp add: w_schedule_remote_def Let_def set_state_def save_def schedule_ticket_def)
          with v status_set_by_scheduled [of "strip t"] show ?thesis
            unfolding store_step_def stored_load [OF Inr] by blast
        qed
      qed
    qed
  qed
qed

lemma w_remote_step:
  assumes "c = lit ''yes'' \<or> c = lit ''no''"
  shows "store_step (stored (tickets_file w)) (stored (tickets_file (world_of (w_remote c now w))))"
proof (cases "load (tickets_file w)")
  case (Inl e)
  then show ?thesis by (simp add: w_remote_def next_ticket_id_def store_step_refl)
next
  case (Inr db)
  let ?id = "lit ''T'' @ strftime_Ymd (now 0) @ lit ''-'' @ fmt_0d 4 (length db + 1)"
  have i: "next_ticket_id (now 0) (tickets_file w) = Inr ?id"
    using Inr by (simp add: next_ticket_id_def)
  from w_remote_world [where now = now and c = c, OF i Inr]
  have "stored (tickets_file (world_of (w_remote c now w)))
          = dict_set db ?id (new_ticket c now (get_data w))"
    by (auto simp: set_state_def)
  then have "stored (tickets_file (world_of (w_remote c now w)))
          = dict_set db ((lit ''T'' @ strftime_Ymd (now 0)) @ lit ''-'' @ fmt_0d 4 (length db + 1))
              (new_ticket c now (get_data w))"
    by simp
  with new_ticket_ok [OF assms] show ?thesis
    unfolding store_step_def stored_load [OF Inr] by blast
qed

lemma tickets_frame:
  "tickets_file (world_of (buy_name m w)) = tickets_file w"
  "tickets_file (world_of (buy_email m w)) = tickets_file w"
  "tickets_file (world_of (buy_phone m w)) = tickets_file w"
  "tickets_file (world_of (buy_city m w)) = tickets_file w"
  "tickets_file (world_of (buy_address m w)) = tickets_file w"
  "tickets_file (world_of (w_serial upper m w)) = tickets_file w"
  "tickets_file (world_of (w_issue m w)) = tickets_file w"
  "tickets_file (world_of (buy_delivery c now w)) = tickets_file w"
  by (simp_all add: buy_name_def buy_email_def buy_phone_def buy_city_def buy_address_def
        w_serial_def w_issue_def buy_delivery_def set_state_def update_data_def clear_def Let_def
        split: option.split sum.split)

lemma dispatch_store_step:
  "store_step (stored (tickets_file w)) (stored (tickets_file (world_of (dispatch upper u now w))))"
proof (cases u)
  case (Message m cmd)
  show ?thesis
    unfolding Message
    by (simp add: dispatch_message_def Let_def cmd_start_def admin_frame tickets_frame
          store_step_refl w_schedule_step)
next
  case (Callback c)
  show ?thesis
    unfolding Callback
    by (auto simp: dispatch_callback_def Let_def cb_home_def cb_presentation_def cb_contacts_def
          cb_buy_def cb_warranty_def set_state_def tickets_frame store_step_refl
          w_remote_step w_progress_step)
qed

lemma dict_set_length_present: "dict_get db k = Some v0 \<Longrightarrow> length (dict_set db k v) = length db"
  by (induction db) (auto simp: dict_get_def)

lemma dict_get_None_iff: "dict_get db k = None \<longleftrightarrow> k \<notin> fst ` set db"
  by (simp add: dict_get_def map_of_eq_None_iff)

lemma grows_refl: "grows db db"
  by (auto simp: grows_def)

lemma grows_trans: "grows a b \<Longrightarrow> grows b c \<Longrightarrow> grows a c"
  unfolding grows_def by (meson prefix_order.order_trans)

lemma store_step_inv:
  assumes "store_step db db'" and "ids_ok db" and "all_ok db"
  shows "ids_ok db' \<and> all_ok db' \<and> grows db db'"
proof -
  from assms(1) consider
      (same) "db' = db"
    | (upd) k v t e s where "dict_get db k = Some v" "status_set_by e = Some s"
        "db' = dict_set db k (v\<lparr>history := history v @ [\<lparr>ts = t, event = e\<rparr>], status := s\<rparr>)"
    | (new) p v where "ticket_ok v" "db' = dict_set db (p @ lit ''-'' @ fmt_0d 4 (length db + 1)) v"
    unfolding store_step_def by blast
  then show ?thesis
  proof cases
    case same
    with assms show ?thesis by (simp add: grows_refl)
  next
    case upd
    let ?v' = "v\<lparr>history := history v @ [\<lparr>ts = t, event = e\<rparr>], status := s\<rparr>"
    have keys: "map fst db' = map fst db" unfolding upd(3) using upd(1) by (rule dict_set_keys)
    have len: "length db' = length db" unfolding upd(3) using upd(1) by (rule dict_set_length_present)
    have 1: "ids_ok db'" using assms(2) keys len by (simp add: ids_ok_def)
    have ok: "ticket_ok ?v'"
      using derived_status_snoc [OF upd(2), of "history v" t] by (simp add: ticket_ok_def)
    have g: "dict_get db' k' = (if k' = k then Some ?v' else dict_get db k')" for k'
      unfolding upd(3) by (simp add: dict_get_set_same dict_get_set_other)
    have 2: "all_ok db'" using assms(3) ok by (auto simp: all_ok_def g)
    have 3: "grows db db'" using upd(1) by (auto simp: grows_def g)
    from 1 2 3 show ?thesis by blast
  next
    case new
    let ?k = "p @ lit ''-'' @ fmt_0d 4 (length db + 1)"
    have seq: "id_seq ?k = length db + 1" by (rule id_seq_new)
    have fresh: "dict_get db ?k = None"
    proof (rule ccontr)
      assume "dict_get db ?k \<noteq> None"
      then have "?k \<in> set (map fst db)" by (simp add: dict_get_None_iff)
      with assms(2) have "id_seq ?k \<le> length db" unfolding ids_ok_def by blast
      with seq show False by simp
    qed
    have app: "db' = db @ [(?k, v)]" unfolding new(2) using fresh by (rule dict_set_fresh)
    have 1: "ids_ok db'" using assms(2) seq unfolding app ids_ok_def by auto
    have g: "dict_get db' k' = (if k' = ?k then Some v else dict_get db k')" for k'
      unfolding new(2) by (simp add: dict_get_set_same dict_get_set_other)
    have 2: "all_ok db'" using assms(3) new(1) by (auto simp: all_ok_def g)
    have 3: "grows db db'" using fresh by (auto simp: grows_def g)
    from 1 2 3 show ?thesis by blast
  qed
qed

lemma run_inv:
  "store_inv w \<Longrightarrow>
     store_inv (run upper evs w)
     \<and> grows (stored (tickets_file w)) (stored (tickets_file (run upper evs w)))"
proof (induction evs arbitrary: w)
  case Nil
  then show ?case by (simp add: grows_refl)
next
  case (Cons ev evs)
  obtain u now where ev: "ev = (u, now)" by (cases ev)
  let ?w' = "world_of (dispatch upper u now w)"
  from store_step_inv [OF dispatch_store_step [of w upper u now]] Cons.prems
  have i: "store_inv ?w'" and g: "grows (stored (tickets_file w)) (stored (tickets_file ?w'))"
    by (simp_all add: store_inv_def)
  from Cons.IH [OF i] g show ?case
    unfolding ev by (auto intro: grows_trans)
qed

lemma run_chats_inv:
  "store_inv w \<Longrightarrow>
     store_inv (run_chats upper evs w)
     \<and> grows (stored (tickets_file w)) (stored (tickets_file (run_chats upper evs w)))"
proof (induction evs arbitrary: w)
  case Nil
  then show ?case by (simp add: grows_refl)
next
  case (Cons ev evs)
  obtain s u now where ev: "ev = (s, u, now)" by (cases ev)
  let ?w0 = "w\<lparr>session := s\<rparr>"
  let ?w' = "world_of (dispatch upper u now ?w0)"
  have t: "tickets_file ?w0 = tickets_file w" by simp
  from store_step_inv [OF dispatch_store_step [of ?w0 upper u now]] Cons.prems
  have i: "store_inv ?w'" and g: "grows (stored (tickets_file w)) (stored (tickets_file ?w'))"
    unfolding t by (simp_all add: store_inv_def)
  from Cons.IH [OF i] g show ?case
    unfolding ev by (auto intro: grows_trans)
qed

lemma run_append: "run upper (a @ b) w = run upper b (run upper a w)"
  by (induction a arbitrary: w) auto

lemma store_inv_empty: "stored (tickets_file w) = [] \<Longrightarrow> store_inv w"
  by (simp add: store_inv_def ids_ok_def all_ok_def dict_get_def)

lemma closing_trace_ticket:
  "dict_get (stored (tickets_file (run ascii_upper example_closing_trace example_world)))
     (lit ''T20250309-0001'') = Some example_closed_ticket"
  by (simp add: example_closing_trace_def example_world_def example_closed_ticket_def stored_def
        eval_defs lit_def)

text \<open>
  C2, as stated, fails: after ticket creation and the stage action \<open>feedback\<close>, the most
  recently appended stage-transition event of the ticket is named \<open>feedback\<close>, while the
  status of the ticket is \<open>closed\<close>.
\<close>

theorem status_event_name_counterexample:
  "ticket_status (stored (tickets_file (run ascii_upper example_closing_trace example_world)))
     (lit ''T20250309-0001'') = Some (lit ''closed'')
   \<and> last_stage_event
        (ticket_events (stored (tickets_file (run ascii_upper example_closing_trace example_world)))
           (lit ''T20250309-0001'')) = Some (lit ''feedback'')
   \<and> lit ''closed'' \<noteq> lit ''feedback''"
  by (simp add: ticket_status_def ticket_events_def last_stage_event_def closing_trace_ticket
        example_closed_ticket_def stage_actions_def)

text \<open>
  C2, amended. In every run of the bot from an empty ticket store, every ticket of the
  store has the status set by the most recent status-setting event of its history (a
  stage action's mapped status, with \<open>feedback\<close> giving \<open>closed\<close>; \<open>remote_scheduled\<close> for a
  \<open>remote_scheduled:<text>\<close> event; the initial status for the consent event of the
  creation), and whatever happens afterwards the ticket stays in the store with a
  history that extends the present one.
\<close>

theorem ticket_history_invariant:
  assumes "stored (tickets_file w0) = []"
  shows "\<forall>k v. dict_get (stored (tickets_file (run upper evs w0))) k = Some v \<longrightarrow>
           derived_status (history v) = Some (status v)
         \<and> (\<forall>more. \<exists>v'. dict_get (stored (tickets_file (run upper (evs @ more) w0))) k = Some v'
                          \<and> prefix (history v) (history v'))"
proof (intro allI impI)
  fix k v
  assume kv: "dict_get (stored (tickets_file (run upper evs w0))) k = Some v"
  have i: "store_inv (run upper evs w0)"
    using run_inv [OF store_inv_empty [OF assms]] by blast
  then have ok: "derived_status (history v) = Some (status v)"
    using kv by (auto simp: store_inv_def all_ok_def ticket_ok_def)
  have "\<exists>v'. dict_get (stored (tickets_file (run upper (evs @ more) w0))) k = Some v'
             \<and> prefix (history v) (history v')" for more
    using run_inv [OF i, of upper more] kv unfolding run_append grows_def by blast
  with ok show "derived_status (history v) = Some (status v)
         \<and> (\<forall>more. \<exists>v'. dict_get (stored (tickets_file (run upper (evs @ more) w0))) k = Some v'
                          \<and> prefix (history v) (history v'))"
    by blast
qed

theorem ticket_history_invariant_witness:
  "stored (tickets_file example_world) = []
   \<and> dict_get (stored (tickets_file (run ascii_upper example_closing_trace example_world)))
        (lit ''T20250309-0001'') = Some example_closed_ticket
   \<and> derived_status (history example_closed_ticket) = Some (lit ''closed'')
   \<and> (\<exists>v'. dict_get (stored (tickets_file (run ascii_upper (example_closing_trace @ example_reopen)
                                               example_world)))
               (lit ''T20250309-0001'') = Some v'
          \<and> prefix (history example_closed_ticket) (history v'))"
proof -
  have e: "stored (tickets_file example_world) = []"
    by (simp add: example_world_def stored_def)
  have s: "status example_closed_ticket = lit ''closed''"
    by (simp add: example_closed_ticket_def)
  from ticket_history_invariant [OF e, of ascii_upper example_closing_trace] closing_trace_ticket
  have "derived_status (history example_closed_ticket) = Some (status example_closed_ticket)"
    and "\<exists>v'. dict_get (stored (tickets_file (run ascii_upper (example_closing_trace @ example_reopen)
                                               example_world)))
               (lit ''T20250309-0001'') = Some v'
          \<and> prefix (history example_closed_ticket) (history v')"
    by blast+
  with e s closing_trace_ticket show ?thesis by simp
qed

end
